theory Spec2Isabelle
  imports Main
begin

unbundle bit_operations_syntax

section \<open>Values, errors and the remote client\<close>

text \<open>
  The program is \<^verbatim>\<open>janitor/mu.py\<close> (Python 2). The values that travel between the
  program and the provider's API are Python values: keyword arguments of a call and the
  dicts of a response. A dict is an association list (looked up with \<open>map_of\<close>); a Python 2
  \<^verbatim>\<open>str\<close> is a byte string, here \<open>string\<close>. Equality of two values is structural
  equality; the fields the program compares are strings and integers.
\<close>

datatype pyval =
    PNone
  | PBool bool
  | PInt int
  | PStr string
  | PList "pyval list"
  | PDict "(string \<times> pyval) list"

text \<open>Truth value of a Python object, as \<^verbatim>\<open>if x:\<close> and \<^verbatim>\<open>not x\<close> read it.\<close>

fun truthy :: "pyval \<Rightarrow> bool" where
  "truthy PNone = False"
| "truthy (PBool b) = b"
| "truthy (PInt i) = (i \<noteq> 0)"
| "truthy (PStr s) = (s \<noteq> [])"
| "truthy (PList xs) = (xs \<noteq> [])"
| "truthy (PDict kvs) = (kvs \<noteq> [])"

text \<open>
  Exceptions. \<open>ClientError code message\<close> is botocore's \<^verbatim>\<open>ClientError\<close>, whose
  \<^verbatim>\<open>response['Error']['Code']\<close> is \<open>code\<close>; \<open>OtherError\<close> stands for every exception of
  the client library that is not a \<^verbatim>\<open>ClientError\<close> (a connection failure, say).
\<close>

datatype error =
    ClientError string string
  | AssertionError string
  | ValueError string
  | KeyError string
  | TypeError string
  | AttributeError string
  | OSError string
  | OtherError string

text \<open>
  A remote call names the client (\<^verbatim>\<open>'lambda'\<close>, \<^verbatim>\<open>'events'\<close>, \<^verbatim>\<open>'s3'\<close>), the operation
  and its keyword arguments. The provider is a parameter of the model: a function
  \<open>remote\<close> that, from a call and the provider's state \<open>'w\<close>, gives the response or the
  exception, and the next state. A run of the program threads the provider's state and
  the list of the calls it has issued, oldest first.
\<close>

datatype call = Call (client_of: string) (op_of: string) (kwargs_of: "(string \<times> pyval) list")

type_synonym 'w remote = "call \<Rightarrow> 'w \<Rightarrow> (error + pyval) \<times> 'w"

type_synonym 'w run = "'w \<times> call list"

type_synonym ('w, 'a) prog = "'w run \<Rightarrow> (error + 'a) \<times> 'w run"

definition invoke :: "'w remote \<Rightarrow> call \<Rightarrow> ('w, pyval) prog" where
  "invoke remote c s = (case remote c (fst s) of (r, w') \<Rightarrow> (r, (w', snd s @ [c])))"

definition ret :: "'a \<Rightarrow> ('w, 'a) prog" where
  "ret x s = (Inr x, s)"

definition raise :: "error \<Rightarrow> ('w, 'a) prog" where
  "raise e s = (Inl e, s)"

definition bind_prog :: "('w, 'a) prog \<Rightarrow> ('a \<Rightarrow> ('w, 'b) prog) \<Rightarrow> ('w, 'b) prog" where
  "bind_prog m k s = (case m s of (Inl e, s') \<Rightarrow> (Inl e, s') | (Inr x, s') \<Rightarrow> k x s')"

text \<open>The calls a run issued, and the calls of one operation among them.\<close>

definition issued :: "(error + 'a) \<times> 'w run \<Rightarrow> call list" where
  "issued out = snd (snd out)"

definition calls_of :: "string \<Rightarrow> call list \<Rightarrow> call list" where
  "calls_of opn cs = filter (\<lambda>c. op_of c = opn) cs"

section \<open>Lookups: \<^verbatim>\<open>resource_exists\<close> and \<^verbatim>\<open>LambdaManager.get\<close>\<close>

text \<open>
  \<^verbatim>\<open>
  def resource_exists(op, *args, **kw):
      try:
          return op(*args, **kw)
      except ClientError, e:
          if e.response['Error']['Code'] == "ResourceNotFoundException":
              return False
          raise
  \<close>
\<close>

definition resource_exists :: "('w, pyval) prog \<Rightarrow> ('w, pyval) prog" where
  "resource_exists opr s =
     (case opr s of
        (Inl (ClientError code msg), s') \<Rightarrow>
          if code = ''ResourceNotFoundException'' then (Inr (PBool False), s')
          else (Inl (ClientError code msg), s')
      | (Inl e, s') \<Rightarrow> (Inl e, s')
      | (Inr v, s') \<Rightarrow> (Inr v, s'))"

text \<open>
  \<^verbatim>\<open>
  def get(self, func_name, qualifier=None):
      params = {'FunctionName': func_name}
      if qualifier:
          params['Qualifier'] = qualifier
      return resource_exists(self.client.get_function, **params)
  \<close>
  The qualifier is \<^verbatim>\<open>None\<close> or a string; an empty string is falsy.
\<close>

definition str_truthy :: "string option \<Rightarrow> bool" where
  "str_truthy x = (case x of None \<Rightarrow> False | Some s \<Rightarrow> s \<noteq> [])"

definition get_function_params :: "string \<Rightarrow> string option \<Rightarrow> (string \<times> pyval) list" where
  "get_function_params func_name qualifier =
     [(''FunctionName'', PStr func_name)] @
     (if str_truthy qualifier then [(''Qualifier'', PStr (the qualifier))] else [])"

definition LambdaManager_get :: "'w remote \<Rightarrow> string \<Rightarrow> string option \<Rightarrow> ('w, pyval) prog" where
  "LambdaManager_get remote func_name qualifier =
     resource_exists (invoke remote (Call ''lambda'' ''get_function''
       (get_function_params func_name qualifier)))"

section \<open>The event source\<close>

text \<open>
  \<^verbatim>\<open>
  def _make_notification_id(self, function_name):
      if not function_name.startswith(self.prefix):
          return "%s%s" % (self.prefix, function_name)
      return function_name
  \<close>
\<close>

fun startswith :: "string \<Rightarrow> string \<Rightarrow> bool" where
  "startswith s [] = True"
| "startswith [] (p # ps) = False"
| "startswith (c # cs) (p # ps) = (c = p \<and> startswith cs ps)"

definition make_notification_id :: "string \<Rightarrow> string \<Rightarrow> string" where
  "make_notification_id prefix function_name =
     (if \<not> startswith function_name prefix then prefix @ function_name else function_name)"

text \<open>
  \<^verbatim>\<open>
  def get(self, rule_name):
      return resource_exists(
          self.client.describe_rule,
          Name=self._make_notification_id(rule_name))
  \<close>
\<close>

definition CloudWatchEventSource_get :: "'w remote \<Rightarrow> string \<Rightarrow> string \<Rightarrow> ('w, pyval) prog" where
  "CloudWatchEventSource_get remote prefix rule_name =
     resource_exists (invoke remote (Call ''events'' ''describe_rule''
       [(''Name'', PStr (make_notification_id prefix rule_name))]))"

text \<open>
  The mode of a policy (\<^verbatim>\<open>policy.data['mode']\<close>), the dict an event source is built from.
  The program reads it with \<^verbatim>\<open>.get\<close>, so every key may be absent; loading and validating
  the policy file is not part of this module, and the fields have their declared types.
\<close>

record mode_data =
  mode_type :: "string option"
  mode_sources :: "string list option"
  mode_events :: "string list option"
  mode_schedule :: "string option"
  mode_role :: "string option"
  mode_memory :: "int option"

text \<open>\<^verbatim>\<open>CloudWatchEventSource(data, session_factory, prefix="maid-")\<close>.\<close>

record event_source =
  es_data :: mode_data
  es_prefix :: string

text \<open>
  What the event source and the manager read of a function object: its name, its
  configuration properties and the alias attribute (\<^verbatim>\<open>alias = None\<close> in the class, set by
  \<^verbatim>\<open>publish\<close> when an alias is given).
\<close>

record lambda_function =
  fn_name :: string
  fn_runtime :: string
  fn_description :: string
  fn_handler :: string
  fn_memory_size :: int
  fn_timeout :: int
  fn_role :: string
  fn_alias :: "string option"

text \<open>\<^verbatim>\<open>d.get(k)\<close> and \<^verbatim>\<open>d.get(k, default)\<close> on a dict.\<close>

definition dict_get :: "(string \<times> pyval) list \<Rightarrow> string \<Rightarrow> pyval" where
  "dict_get d k = (case map_of d k of None \<Rightarrow> PNone | Some v \<Rightarrow> v)"

definition get_default :: "(string \<times> 'a) list \<Rightarrow> string \<Rightarrow> 'a \<Rightarrow> 'a" where
  "get_default d k dflt = (case map_of d k of None \<Rightarrow> dflt | Some v \<Rightarrow> v)"

text \<open>\<^verbatim>\<open>x[k]\<close>: a missing key raises \<^verbatim>\<open>KeyError\<close>, a value that is no dict \<^verbatim>\<open>TypeError\<close>.\<close>

fun getitem :: "pyval \<Rightarrow> string \<Rightarrow> error + pyval" where
  "getitem (PDict d) k = (case map_of d k of None \<Rightarrow> Inl (KeyError k) | Some v \<Rightarrow> Inr v)"
| "getitem v k = Inl (TypeError ''not subscriptable by a string key'')"

text \<open>\<^verbatim>\<open>for t in x\<close>: the items a loop over a value visits.\<close>

fun iter_items :: "pyval \<Rightarrow> error + pyval list" where
  "iter_items (PList xs) = Inr xs"
| "iter_items (PStr s) = Inr (map (\<lambda>c. PStr [c]) s)"
| "iter_items (PDict d) = Inr (map (\<lambda>kv. PStr (fst kv)) d)"
| "iter_items v = Inl (TypeError ''object is not iterable'')"

text \<open>Substring test, \<^verbatim>\<open>a in s\<close> on two strings.\<close>

fun contains :: "string \<Rightarrow> string \<Rightarrow> bool" where
  "contains [] a = (a = [])"
| "contains (c # cs) a = (startswith (c # cs) a \<or> contains cs a)"

text \<open>\<^verbatim>\<open>func.alias in t['Arn']\<close>, the alias being \<^verbatim>\<open>None\<close> or a string.\<close>

fun py_in :: "string option \<Rightarrow> pyval \<Rightarrow> error + bool" where
  "py_in None (PStr s) = Inl (TypeError ''in <string> requires string as left operand'')"
| "py_in (Some a) (PStr s) = Inr (contains s a)"
| "py_in None (PList xs) = Inr (PNone \<in> set xs)"
| "py_in (Some a) (PList xs) = Inr (PStr a \<in> set xs)"
| "py_in None (PDict d) = Inr False"
| "py_in (Some a) (PDict d) = Inr (a \<in> set (map fst d))"
| "py_in a v = Inl (TypeError ''argument is not iterable'')"

definition opt_str :: "string option \<Rightarrow> pyval" where
  "opt_str x = (case x of None \<Rightarrow> PNone | Some s \<Rightarrow> PStr s)"

definition str_list :: "string list \<Rightarrow> pyval" where
  "str_list xs = PList (map PStr xs)"

text \<open>
  \<^verbatim>\<open>
  def delta(self, src, tgt):
      for k in ['State', 'EventPattern', 'ScheduleExpression']:
          if src.get(k) != tgt.get(k):
              return True
      return False
  \<close>
\<close>

fun delta_loop :: "string list \<Rightarrow> (string \<times> pyval) list \<Rightarrow> (string \<times> pyval) list \<Rightarrow> bool" where
  "delta_loop [] src tgt = False"
| "delta_loop (k # ks) src tgt =
     (if dict_get src k \<noteq> dict_get tgt k then True else delta_loop ks src tgt)"

definition delta :: "(string \<times> pyval) list \<Rightarrow> (string \<times> pyval) list \<Rightarrow> bool" where
  "delta src tgt = delta_loop [''State'', ''EventPattern'', ''ScheduleExpression''] src tgt"

definition ASG_EVENT_MAPPING :: "(string \<times> string) list" where
  "ASG_EVENT_MAPPING =
     [(''launch-success'', ''EC2 Instance Launch Successful''),
      (''launch-failure'', ''EC2 Instance Launch Unsuccessful''),
      (''terminate-success'', ''EC2 Instance Terminate Successful''),
      (''terminate-failure'', ''EC2 Instance Terminate Unsuccessful'')]"

text \<open>
  \<^verbatim>\<open>render_event_pattern\<close> builds the dict \<^verbatim>\<open>payload\<close> and returns
  \<^verbatim>\<open>json.dumps(payload, indent=2)\<close>, or \<^verbatim>\<open>None\<close> for an empty payload. \<open>event_payload\<close> is
  the dict it builds; the serialiser \<open>dumps\<close> is a parameter.
  \<^verbatim>\<open>
  event_type = self.data.get('type')
  payload = {}
  if event_type == 'cloudtrail':
      payload['detail-type'] = ['AWS API Call via CloudTrail']
      payload['detail'] = {
          'eventSource': self.data.get('sources', []),
          'eventName': self.data.get('events', [])}
  elif event_type == "ec2-instance-state":
      payload['source'] = ['aws.ec2']
      payload['detail-type'] = ["EC2 Instance State-change Notifications"]
      payload['detail'] = {"state": self.data.get('events', [])}
  elif event_type == "asg-instance-state":
      payload['source'] = ['aws.autoscaling']
      events = []
      for e in self.data.get('events', []):
          events.append(self.ASG_EVENT_MAPPING.get(e, e))
      payload['detail-type'] = events
  elif event_type == 'periodic':
      pass
  else:
      raise ValueError("Unknown lambda event source type: %s" % event_type)
  if not payload:
      return None
  return json.dumps(payload, indent=2)
  \<close>
\<close>

definition opt_list :: "string list option \<Rightarrow> string list" where
  "opt_list x = (case x of None \<Rightarrow> [] | Some xs \<Rightarrow> xs)"

fun asg_events :: "string list \<Rightarrow> string list \<Rightarrow> string list" where
  "asg_events events [] = events"
| "asg_events events (e # es) = asg_events (events @ [get_default ASG_EVENT_MAPPING e e]) es"

definition event_payload :: "mode_data \<Rightarrow> error + (string \<times> pyval) list" where
  "event_payload d =
     (let event_type = mode_type d in
      if event_type = Some ''cloudtrail'' then
        Inr [(''detail-type'', str_list [''AWS API Call via CloudTrail'']),
             (''detail'', PDict [(''eventSource'', str_list (opt_list (mode_sources d))),
                                 (''eventName'', str_list (opt_list (mode_events d)))])]
      else if event_type = Some ''ec2-instance-state'' then
        Inr [(''source'', str_list [''aws.ec2'']),
             (''detail-type'', str_list [''EC2 Instance State-change Notifications'']),
             (''detail'', PDict [(''state'', str_list (opt_list (mode_events d)))])]
      else if event_type = Some ''asg-instance-state'' then
        Inr [(''source'', str_list [''aws.autoscaling'']),
             (''detail-type'', str_list (asg_events [] (opt_list (mode_events d))))]
      else if event_type = Some ''periodic'' then Inr []
      else Inl (ValueError (''Unknown lambda event source type: '' @
                  (case event_type of None \<Rightarrow> ''None'' | Some t \<Rightarrow> t))))"

definition render_event_pattern :: "(pyval \<Rightarrow> string) \<Rightarrow> mode_data \<Rightarrow> error + string option" where
  "render_event_pattern dumps d =
     (case event_payload d of
        Inl e \<Rightarrow> Inl e
      | Inr payload \<Rightarrow> if payload = [] then Inr None else Inr (Some (dumps (PDict payload))))"

text \<open>
  \<^verbatim>\<open>
  def add(self, func):
      params = dict(Name=func.name, State='ENABLED')
      pattern = self.render_event_pattern()
      if pattern:
          params['EventPattern'] = pattern
      schedule = self.data.get('schedule')
      if schedule:
          params['ScheduleExpression'] = schedule
      rule = self.get(func.name)
      if rule and self.delta(rule, params):
          response = self.client.put_rule(**params)
      elif not rule:
          response = self.client.put_rule(**params)
      found = False
      response = self.client.list_targets_by_rule(Rule=func.name)
      for t in response['Targets']:
          if func.alias in t['Arn']:
              found = True
      if found:
          return
      self.client.put_targets(
          Rule=func.name,
          Targets=[{"Id": str(uuid.uuid4()), "Arn": func.alias}])
      return True
  \<close>
  The fresh identifier \<^verbatim>\<open>str(uuid.uuid4())\<close> is the parameter \<open>uid\<close>. A rule that is truthy
  and no dict has no \<^verbatim>\<open>.get\<close>. The function is written in three steps: the parameters of
  the rule (\<open>rule_params\<close>), the rule (\<open>put_rule_step\<close>, the two branches that call
  \<^verbatim>\<open>put_rule\<close>) and the target (\<open>put_targets_step\<close>, from \<^verbatim>\<open>found = False\<close> on).
\<close>

definition rule_params :: "(pyval \<Rightarrow> string) \<Rightarrow> event_source \<Rightarrow> lambda_function \<Rightarrow>
    error + (string \<times> pyval) list" where
  "rule_params dumps es func =
     (case render_event_pattern dumps (es_data es) of
        Inl e \<Rightarrow> Inl e
      | Inr pattern \<Rightarrow>
          Inr ([(''Name'', PStr (fn_name func)), (''State'', PStr ''ENABLED'')] @
               (if str_truthy pattern then [(''EventPattern'', PStr (the pattern))] else []) @
               (if str_truthy (mode_schedule (es_data es))
                then [(''ScheduleExpression'', PStr (the (mode_schedule (es_data es))))] else [])))"

definition rule_delta :: "pyval \<Rightarrow> (string \<times> pyval) list \<Rightarrow> error + bool" where
  "rule_delta rule params =
     (case rule of
        PDict src \<Rightarrow> Inr (delta src params)
      | _ \<Rightarrow> Inl (AttributeError ''object has no attribute get''))"

definition put_rule_step :: "'w remote \<Rightarrow> pyval \<Rightarrow> (string \<times> pyval) list \<Rightarrow> ('w, unit) prog" where
  "put_rule_step remote rule params =
     (if truthy rule then
        (case rule_delta rule params of
           Inl e \<Rightarrow> raise e
         | Inr changed \<Rightarrow>
             if changed then
               bind_prog (invoke remote (Call ''events'' ''put_rule'' params)) (\<lambda>response. ret ())
             else ret ())
      else bind_prog (invoke remote (Call ''events'' ''put_rule'' params)) (\<lambda>response. ret ()))"

fun find_target :: "string option \<Rightarrow> bool \<Rightarrow> pyval list \<Rightarrow> error + bool" where
  "find_target alias found [] = Inr found"
| "find_target alias found (t # ts) =
     (case getitem t ''Arn'' of
        Inl e \<Rightarrow> Inl e
      | Inr arn \<Rightarrow>
          (case py_in alias arn of
             Inl e \<Rightarrow> Inl e
           | Inr b \<Rightarrow> find_target alias (if b then True else found) ts))"

definition targets_found :: "string option \<Rightarrow> pyval \<Rightarrow> error + bool" where
  "targets_found alias response =
     (case getitem response ''Targets'' of
        Inl e \<Rightarrow> Inl e
      | Inr targets \<Rightarrow>
          (case iter_items targets of
             Inl e \<Rightarrow> Inl e
           | Inr ts \<Rightarrow> find_target alias False ts))"

definition put_targets_call :: "string \<Rightarrow> lambda_function \<Rightarrow> call" where
  "put_targets_call uid func =
     Call ''events'' ''put_targets''
       [(''Rule'', PStr (fn_name func)),
        (''Targets'', PList [PDict [(''Id'', PStr uid), (''Arn'', opt_str (fn_alias func))]])]"

definition put_targets_step :: "'w remote \<Rightarrow> string \<Rightarrow> lambda_function \<Rightarrow> ('w, pyval) prog" where
  "put_targets_step remote uid func =
     bind_prog (invoke remote (Call ''events'' ''list_targets_by_rule''
                  [(''Rule'', PStr (fn_name func))])) (\<lambda>response.
       (case targets_found (fn_alias func) response of
          Inl e \<Rightarrow> raise e
        | Inr found \<Rightarrow>
            if found then ret PNone
            else bind_prog (invoke remote (put_targets_call uid func))
                   (\<lambda>r. ret (PBool True))))"

definition add :: "'w remote \<Rightarrow> (pyval \<Rightarrow> string) \<Rightarrow> string \<Rightarrow> event_source \<Rightarrow> lambda_function \<Rightarrow>
    ('w, pyval) prog" where
  "add remote dumps uid es func =
     (case rule_params dumps es func of
        Inl e \<Rightarrow> raise e
      | Inr params \<Rightarrow>
          bind_prog (CloudWatchEventSource_get remote (es_prefix es) (fn_name func)) (\<lambda>rule.
          bind_prog (put_rule_step remote rule params) (\<lambda>u.
            put_targets_step remote uid func)))"

text \<open>
  \<^verbatim>\<open>
  def pause(self, func):
      try:
          self.client.disable_rule(Rule=func.name)
      except ClientError as e:
          pass

  def resume(self, func):
      try:
          self.client.enable_rule(Rule=func.name)
      except ClientError as e:
          pass
  \<close>
\<close>

definition swallow_client_error :: "('w, pyval) prog \<Rightarrow> ('w, unit) prog" where
  "swallow_client_error opr s =
     (case opr s of
        (Inl (ClientError code msg), s') \<Rightarrow> (Inr (), s')
      | (Inl e, s') \<Rightarrow> (Inl e, s')
      | (Inr v, s') \<Rightarrow> (Inr (), s'))"

definition pause :: "'w remote \<Rightarrow> lambda_function \<Rightarrow> ('w, unit) prog" where
  "pause remote func =
     swallow_client_error (invoke remote (Call ''events'' ''disable_rule''
       [(''Rule'', PStr (fn_name func))]))"

definition resume :: "'w remote \<Rightarrow> lambda_function \<Rightarrow> ('w, unit) prog" where
  "resume remote func =
     swallow_client_error (invoke remote (Call ''events'' ''enable_rule''
       [(''Rule'', PStr (fn_name func))]))"

text \<open>
  \<^verbatim>\<open>
  def remove(self, func):
      if self.get(func.name):
          self.client.delete_rule(Name=func.name)
  \<close>
\<close>

definition CloudWatchEventSource_remove :: "'w remote \<Rightarrow> event_source \<Rightarrow> lambda_function \<Rightarrow>
    ('w, unit) prog" where
  "CloudWatchEventSource_remove remote es func =
     bind_prog (CloudWatchEventSource_get remote (es_prefix es) (fn_name func)) (\<lambda>rule.
       if truthy rule then
         bind_prog (invoke remote (Call ''events'' ''delete_rule'' [(''Name'', PStr (fn_name func))]))
           (\<lambda>r. ret ())
       else ret ())"

text \<open>
  The rule a call of the events client names: its \<^verbatim>\<open>Name\<close> argument (\<^verbatim>\<open>describe_rule\<close>,
  \<^verbatim>\<open>put_rule\<close>, \<^verbatim>\<open>delete_rule\<close>) or else its \<^verbatim>\<open>Rule\<close> argument (\<^verbatim>\<open>list_targets_by_rule\<close>,
  \<^verbatim>\<open>put_targets\<close>).
\<close>

definition rule_named :: "call \<Rightarrow> pyval" where
  "rule_named c =
     (case map_of (kwargs_of c) ''Name'' of
        Some v \<Rightarrow> v
      | None \<Rightarrow> dict_get (kwargs_of c) ''Rule'')"

text \<open>The \<^verbatim>\<open>Arn\<close> of a listed target, when the target is a dict whose \<^verbatim>\<open>Arn\<close> is a string.\<close>

definition arn_of :: "pyval \<Rightarrow> string option" where
  "arn_of t =
     (case t of
        PDict d \<Rightarrow> (case map_of d ''Arn'' of Some (PStr s) \<Rightarrow> Some s | _ \<Rightarrow> None)
      | _ \<Rightarrow> None)"

section \<open>The archive\<close>

text \<open>
  The host's file system is a tree; every node carries its \<^verbatim>\<open>st_mode\<close>, a file also its
  bytes. A path is the list of its components from the root. \<^verbatim>\<open>os.path.dirname\<close> is
  \<open>butlast\<close>, \<^verbatim>\<open>os.path.basename\<close> is \<open>last\<close>, \<^verbatim>\<open>os.path.join\<close> is \<open>@\<close>, and
  \<^verbatim>\<open>os.path.relpath(p, start)\<close> of a path below \<open>start\<close> drops the components of \<open>start\<close>.
  The base name of the root is empty.
\<close>

datatype fsnode =
    File (st_mode: int) (file_bytes: string)
  | Dir (st_mode: int) (children: "(string \<times> fsnode) list")

type_synonym path = "string list"

fun lookup_path :: "fsnode \<Rightarrow> path \<Rightarrow> fsnode option" where
  "lookup_path n [] = Some n"
| "lookup_path (File m b) (c # cs) = None"
| "lookup_path (Dir m ch) (c # cs) =
     (case map_of ch c of None \<Rightarrow> None | Some n \<Rightarrow> lookup_path n cs)"

definition isfile :: "fsnode \<Rightarrow> path \<Rightarrow> bool" where
  "isfile fs p = (case lookup_path fs p of Some (File m b) \<Rightarrow> True | _ \<Rightarrow> False)"

definition isdir :: "fsnode \<Rightarrow> path \<Rightarrow> bool" where
  "isdir fs p = (case lookup_path fs p of Some (Dir m ch) \<Rightarrow> True | _ \<Rightarrow> False)"

fun is_dir_node :: "fsnode \<Rightarrow> bool" where
  "is_dir_node (Dir m ch) = True"
| "is_dir_node (File m b) = False"

text \<open>An archive path is written with \<^verbatim>\<open>/\<close> between its components.\<close>

fun joinpath :: "path \<Rightarrow> string" where
  "joinpath [] = []"
| "joinpath [c] = c"
| "joinpath (c # d # cs) = c @ ''/'' @ joinpath (d # cs)"

text \<open>
  An entry of the zip file: its name, its \<^verbatim>\<open>external_attr\<close> (the Unix mode sits in the
  upper 16 bits) and its bytes.
\<close>

record zentry =
  z_filename :: string
  z_external_attr :: int
  z_data :: string

text \<open>
  \<^verbatim>\<open>
  def zinfo(fname):
      info = zipfile.ZipInfo(fname)
      # Grant other users permissions to read
      info.external_attr = 0o644 << 16
      info.compress_type = zipfile.ZIP_DEFLATED
      return info
  \<close>
  (Octal \<^verbatim>\<open>0o644\<close> is 420 and \<^verbatim>\<open>0o600\<close> is 384.)
  A destination of \<^verbatim>\<open>writestr\<close> is such a \<^verbatim>\<open>ZipInfo\<close> or a plain name; for a plain name
  the library sets the mode itself ("Python's default zipfile.writestr does a 0600 perm",
  says the docstring of \<^verbatim>\<open>zinfo\<close>).
\<close>

datatype dest = ZipInfo string int | ArcName string

definition zinfo :: "string \<Rightarrow> dest" where
  "zinfo fname = ZipInfo fname (push_bit 16 420)"

fun writestr :: "dest \<Rightarrow> string \<Rightarrow> zentry list \<Rightarrow> zentry list" where
  "writestr (ZipInfo fname attr) contents es =
     es @ [\<lparr>z_filename = fname, z_external_attr = attr, z_data = contents\<rparr>]"
| "writestr (ArcName fname) contents es =
     es @ [\<lparr>z_filename = fname, z_external_attr = push_bit 16 384, z_data = contents\<rparr>]"

text \<open>
  \<^verbatim>\<open>ZipFile.write(filename, arcname)\<close> of the standard library stats the file and stores
  its mode: \<^verbatim>\<open>zinfo.external_attr = (st[0] & 0xFFFF) << 16L\<close>; for a directory the name
  gets a trailing \<^verbatim>\<open>/\<close> and the attribute the MS-DOS directory flag \<^verbatim>\<open>0x10\<close>. A path that
  does not exist raises \<^verbatim>\<open>OSError\<close>.
\<close>

definition zip_write :: "fsnode \<Rightarrow> path \<Rightarrow> path \<Rightarrow> zentry list \<Rightarrow> error + zentry list" where
  "zip_write fs filename arcname es =
     (case lookup_path fs filename of
        None \<Rightarrow> Inl (OSError ''No such file or directory'')
      | Some (File m b) \<Rightarrow>
          Inr (es @ [\<lparr>z_filename = joinpath arcname,
                       z_external_attr = push_bit 16 (m AND 0xFFFF), z_data = b\<rparr>])
      | Some (Dir m ch) \<Rightarrow>
          Inr (es @ [\<lparr>z_filename = joinpath arcname @ ''/'',
                       z_external_attr = push_bit 16 (m AND 0xFFFF) OR 0x10, z_data = []\<rparr>]))"

text \<open>
  A filter (\<^verbatim>\<open>src_filter\<close>, \<^verbatim>\<open>lib_filter\<close>) receives \<^verbatim>\<open>(root, dirs, files)\<close> and prunes the
  two lists; the model takes it as the function from the lists it receives to the lists
  it leaves. (\<^verbatim>\<open>create\<close> calls \<^verbatim>\<open>src_filter\<close> for its effect on the lists and takes the
  lists \<^verbatim>\<open>lib_filter\<close> returns; the one filter of the program, in \<^verbatim>\<open>maid_archive\<close>, prunes
  \<^verbatim>\<open>dirs\<close> in place and returns both.)
\<close>

type_synonym walk_filter = "path \<Rightarrow> string list \<Rightarrow> string list \<Rightarrow> string list \<times> string list"

record archive =
  src_path :: path
  virtualenv_dir :: path
  temp_archive_file :: "(string \<times> string) option"
  zip_file :: "zentry list option"
  closed :: bool
  lib_filter :: "walk_filter option"
  src_filter :: "walk_filter option"
  skip :: "string option"

text \<open>
  What the archive needs of its host: the file system, \<^verbatim>\<open>fnmatch\<close> (name, pattern), the
  name of a new temporary file, the bytes of a zip file with given entries, and
  \<^verbatim>\<open>hashlib.sha256()\<close> with \<^verbatim>\<open>base64.b64encode\<close>.
\<close>

record 'h host =
  host_fs :: fsnode
  fnmatch :: "string \<Rightarrow> string \<Rightarrow> bool"
  new_temp_name :: string
  zip_bytes :: "zentry list \<Rightarrow> string"
  sha256_new :: 'h
  sha256_update :: "'h \<Rightarrow> string \<Rightarrow> 'h"
  sha256_digest :: "'h \<Rightarrow> string"
  b64encode :: "string \<Rightarrow> string"

text \<open>
  \<^verbatim>\<open>
  def __init__(self, src_path, virtualenv_dir=None, skip=None,
               lib_filter=None, src_filter=None):
  \<close>
  (\<open>virtualenv_dir\<close> is given; its default comes from \<^verbatim>\<open>sys.executable\<close>.)
\<close>

definition PythonPackageArchive :: "path \<Rightarrow> path \<Rightarrow> string option \<Rightarrow> walk_filter option \<Rightarrow>
    walk_filter option \<Rightarrow> archive" where
  "PythonPackageArchive sp venv sk lf sf =
     \<lparr>src_path = sp, virtualenv_dir = venv, temp_archive_file = None, zip_file = None,
      closed = False, lib_filter = lf, src_filter = sf, skip = sk\<rparr>"

text \<open>
  \<^verbatim>\<open>
  def filter_files(self, files):
      if not self.skip:
          return files
      skip_files = set(fnmatch.filter(files, self.skip))
      return [f for f in files if not f in skip_files]
  \<close>
\<close>

definition filter_files :: "'h host \<Rightarrow> archive \<Rightarrow> string list \<Rightarrow> string list" where
  "filter_files h a files =
     (if \<not> str_truthy (skip a) then files
      else (let skip_files = set (filter (\<lambda>f. fnmatch h f (the (skip a))) files)
            in filter (\<lambda>f. f \<notin> skip_files) files))"

text \<open>
  \<^verbatim>\<open>os.walk(top)\<close>, top down: a directory yields its sub-directory names and its other
  names, in the order of the listing, and is followed by the walks of the
  sub-directories left in \<^verbatim>\<open>dirs\<close> by the loop body. \<open>walk flt root n\<close> lists, for every
  directory visited, its path and the file names the filter left. A name that is no
  directory yields nothing.
\<close>

definition apply_filter :: "walk_filter option \<Rightarrow> path \<Rightarrow> string list \<Rightarrow> string list \<Rightarrow>
    string list \<times> string list" where
  "apply_filter flt root dirs files =
     (case flt of None \<Rightarrow> (dirs, files) | Some f \<Rightarrow> f root dirs files)"

function walk :: "walk_filter option \<Rightarrow> path \<Rightarrow> fsnode \<Rightarrow> (path \<times> string list) list" where
  "walk flt root (File m b) = []"
| "walk flt root (Dir m ch) =
     (let dirs = map fst (filter (\<lambda>kv. is_dir_node (snd kv)) ch);
          files = map fst (filter (\<lambda>kv. \<not> is_dir_node (snd kv)) ch);
          kept = apply_filter flt root dirs files
      in (root, snd kept) #
         concat (map (\<lambda>d. case map_of ch d of
                             None \<Rightarrow> []
                           | Some n \<Rightarrow> walk flt (root @ [d]) n) (fst kept)))"
  by pat_completeness auto
termination
proof (relation "measure (\<lambda>(flt, root, n). size n)")
  show "wf (measure (\<lambda>(flt, root, n). size n))" by simp
next
  fix flt :: "walk_filter option" and root :: path and m :: int
    and ch :: "(string \<times> fsnode) list" and d :: string and n :: fsnode
    and dirs files :: "string list" and kept :: "string list \<times> string list"
  assume "map_of ch d = Some n"
  then have "(d, n) \<in> set ch" by (rule map_of_SomeD)
  then have "size n < Suc (size_list (size_prod (\<lambda>x. 0) size) ch)"
    by (induction ch) auto
  then show "((flt, root @ [d], n), (flt, root, Dir m ch)) \<in> measure (\<lambda>(flt, root, n). size n)"
    by simp
qed

text \<open>The loop \<^verbatim>\<open>for f in files: self._zip_file.write(join(root, f), join(arc_prefix, f))\<close>.\<close>

fun write_files :: "fsnode \<Rightarrow> path \<Rightarrow> path \<Rightarrow> string list \<Rightarrow> zentry list \<Rightarrow>
    (error + unit) \<times> zentry list" where
  "write_files fs root arc_prefix [] es = (Inr (), es)"
| "write_files fs root arc_prefix (f # fl) es =
     (case zip_write fs (root @ [f]) (arc_prefix @ [f]) es of
        Inl e \<Rightarrow> (Inl e, es)
      | Inr es' \<Rightarrow> write_files fs root arc_prefix fl es')"

text \<open>The loop over the directories of a walk; \<open>start\<close> is what \<^verbatim>\<open>relpath\<close> is relative to.\<close>

fun write_walk :: "'h host \<Rightarrow> archive \<Rightarrow> path \<Rightarrow> (path \<times> string list) list \<Rightarrow> zentry list \<Rightarrow>
    (error + unit) \<times> zentry list" where
  "write_walk h a start [] es = (Inr (), es)"
| "write_walk h a start ((root, files) # rest) es =
     (case write_files (host_fs h) root (drop (length start) root) (filter_files h a files) es of
        (Inl e, es') \<Rightarrow> (Inl e, es')
      | (Inr u, es') \<Rightarrow> write_walk h a start rest es')"

definition walk_path :: "fsnode \<Rightarrow> walk_filter option \<Rightarrow> path \<Rightarrow> (path \<times> string list) list" where
  "walk_path fs flt p = (case lookup_path fs p of None \<Rightarrow> [] | Some n \<Rightarrow> walk flt p n)"

text \<open>
  \<^verbatim>\<open>
  def create(self):
      assert not self._temp_archive_file, "Archive already created"
      self._temp_archive_file = tempfile.NamedTemporaryFile()
      self._zip_file = zipfile.ZipFile(
          self._temp_archive_file, mode='w', compression=zipfile.ZIP_DEFLATED)
      prefix = os.path.dirname(self.src_path)
      if os.path.isfile(self.src_path):
          self._zip_file.write(
              os.path.join(self.src_path), os.path.basename(self.src_path))
      elif os.path.isdir(self.src_path):
          for root, dirs, files in os.walk(self.src_path):
              arc_prefix = os.path.relpath(root, os.path.dirname(self.src_path))
              if self.src_filter:
                  self.src_filter(root, dirs, files)
              files = self.filter_files(files)
              for f in files:
                  self._zip_file.write(os.path.join(root, f), os.path.join(arc_prefix, f))
      venv_lib_path = os.path.join(
          self.virtualenv_dir, 'lib', 'python2.7', 'site-packages')
      for root, dirs, files in os.walk(venv_lib_path):
          if self.lib_filter:
              dirs, files = self.lib_filter(root, dirs, files)
          arc_prefix = os.path.relpath(root, venv_lib_path)
          files = self.filter_files(files)
          for f in files:
              self._zip_file.write(os.path.join(root, f), os.path.join(arc_prefix, f))
  \<close>
  Every method returns its result, or the exception, with the archive as it leaves it.
\<close>

definition basename :: "path \<Rightarrow> path" where
  "basename p = (if p = [] then [] else [last p])"

definition write_source :: "'h host \<Rightarrow> archive \<Rightarrow> zentry list \<Rightarrow> (error + unit) \<times> zentry list" where
  "write_source h a es =
     (if isfile (host_fs h) (src_path a) then
        (case zip_write (host_fs h) (src_path a) (basename (src_path a)) es of
           Inl e \<Rightarrow> (Inl e, es)
         | Inr es' \<Rightarrow> (Inr (), es'))
      else if isdir (host_fs h) (src_path a) then
        write_walk h a (butlast (src_path a))
          (walk_path (host_fs h) (src_filter a) (src_path a)) es
      else (Inr (), es))"

definition write_library :: "'h host \<Rightarrow> archive \<Rightarrow> zentry list \<Rightarrow> (error + unit) \<times> zentry list" where
  "write_library h a es =
     (let venv_lib_path = virtualenv_dir a @ [''lib'', ''python2.7'', ''site-packages'']
      in write_walk h a venv_lib_path (walk_path (host_fs h) (lib_filter a) venv_lib_path) es)"

definition create :: "'h host \<Rightarrow> archive \<Rightarrow> (error + unit) \<times> archive" where
  "create h a =
     (if temp_archive_file a \<noteq> None then (Inl (AssertionError ''Archive already created''), a)
      else
        (let a1 = a\<lparr>temp_archive_file := Some (new_temp_name h, []), zip_file := Some []\<rparr> in
         case write_source h a1 [] of
           (Inl e, es) \<Rightarrow> (Inl e, a1\<lparr>zip_file := Some es\<rparr>)
         | (Inr u, es) \<Rightarrow>
             (case write_library h a1 es of
                (r, es') \<Rightarrow> (r, a1\<lparr>zip_file := Some es'\<rparr>))))"

text \<open>
  \<^verbatim>\<open>
  def add_contents(self, dest, contents):
      # see zinfo function for some caveats
      assert not self._closed, "Archive closed"
      self._zip_file.writestr(dest, contents)
  \<close>
\<close>

definition add_contents :: "dest \<Rightarrow> string \<Rightarrow> archive \<Rightarrow> (error + unit) \<times> archive" where
  "add_contents dst contents a =
     (if closed a then (Inl (AssertionError ''Archive closed''), a)
      else case zip_file a of
             None \<Rightarrow> (Inl (AttributeError ''NoneType object has no attribute writestr''), a)
           | Some es \<Rightarrow> (Inr (), a\<lparr>zip_file := Some (writestr dst contents es)\<rparr>))"

text \<open>
  \<^verbatim>\<open>
  def close(self):
      self._closed = True
      self._zip_file.close()
      log.debug(..., os.path.getsize(self._temp_archive_file.name) ...)
      return self
  \<close>
  Closing the zip file writes its bytes to the temporary file.
\<close>

definition close :: "'h host \<Rightarrow> archive \<Rightarrow> (error + unit) \<times> archive" where
  "close h a =
     (let a1 = a\<lparr>closed := True\<rparr> in
      case zip_file a1 of
        None \<Rightarrow> (Inl (AttributeError ''NoneType object has no attribute close''), a1)
      | Some es \<Rightarrow>
          (case temp_archive_file a1 of
             None \<Rightarrow> (Inl (AttributeError ''NoneType object has no attribute name''), a1)
           | Some (nm, b) \<Rightarrow> (Inr (), a1\<lparr>temp_archive_file := Some (nm, zip_bytes h es)\<rparr>)))"

text \<open>
  \<^verbatim>\<open>
  def remove(self):
      if self._temp_archive_file:
          self._temp_archive_file = None
  \<close>
\<close>

definition archive_remove :: "archive \<Rightarrow> archive" where
  "archive_remove a = (if temp_archive_file a \<noteq> None then a\<lparr>temp_archive_file := None\<rparr> else a)"

text \<open>
  \<^verbatim>\<open>
  @property
  def path(self):
      return self._temp_archive_file.name

  @property
  def size(self):
      if not self._closed:
          raise ValueError("Archive not closed, size not accurate")
      return os.stat(self._temp_archive_file.name).st_size
  \<close>
\<close>

definition archive_path :: "archive \<Rightarrow> error + string" where
  "archive_path a =
     (case temp_archive_file a of
        None \<Rightarrow> Inl (AttributeError ''NoneType object has no attribute name'')
      | Some (nm, b) \<Rightarrow> Inr nm)"

definition archive_size :: "archive \<Rightarrow> error + nat" where
  "archive_size a =
     (if \<not> closed a then Inl (ValueError ''Archive not closed, size not accurate'')
      else case temp_archive_file a of
             None \<Rightarrow> Inl (AttributeError ''NoneType object has no attribute name'')
           | Some (nm, b) \<Rightarrow> Inr (length b))"

text \<open>
  \<^verbatim>\<open>
  def checksum(fh, hasher, blocksize=65536):
      buf = fh.read(blocksize)
      while len(buf) > 0:
          hasher.update(buf)
          buf = fh.read(blocksize)
      return hasher.digest()
  \<close>
  \<open>rest\<close> is what is left to read of the file.
\<close>

function checksum :: "'h host \<Rightarrow> string \<Rightarrow> 'h \<Rightarrow> nat \<Rightarrow> string" where
  "checksum h rest hasher blocksize =
     (let buf = take blocksize rest in
      if length buf > 0
      then checksum h (drop blocksize rest) (sha256_update h hasher buf) blocksize
      else sha256_digest h hasher)"
  by pat_completeness auto
termination
  by (relation "measure (\<lambda>(h, rest, hasher, blocksize). length rest)") auto

text \<open>
  \<^verbatim>\<open>
  def get_checksum(self):
      """Return the b64 encoded sha256 checksum."""
      assert self._closed, "Archive not closed"
      with open(self._temp_archive_file.name) as fh:
          return base64.b64encode(checksum(fh, hashlib.sha256()))

  def get_bytes(self):
      assert self._closed, "Archive not closed"
      return open(self._temp_archive_file.name, 'rb').read()
  \<close>
\<close>

definition get_checksum :: "'h host \<Rightarrow> archive \<Rightarrow> error + string" where
  "get_checksum h a =
     (if \<not> closed a then Inl (AssertionError ''Archive not closed'')
      else case temp_archive_file a of
             None \<Rightarrow> Inl (AttributeError ''NoneType object has no attribute name'')
           | Some (nm, b) \<Rightarrow> Inr (b64encode h (checksum h b (sha256_new h) 65536)))"

definition get_bytes :: "archive \<Rightarrow> error + string" where
  "get_bytes a =
     (if \<not> closed a then Inl (AssertionError ''Archive not closed'')
      else case temp_archive_file a of
             None \<Rightarrow> Inl (AttributeError ''NoneType object has no attribute name'')
           | Some (nm, b) \<Rightarrow> Inr b)"

section \<open>The policy function\<close>

text \<open>
  A policy: its name, the \<^verbatim>\<open>description\<close> of its data when there is one, and its mode.
  \<^verbatim>\<open>
  class PolicyLambda(LambdaFunction):
      handler = "maid_policy.run"
      runtime = "python2.7"
      timeout = 60
      name:        "maid-%s" % self.policy.name
      description: self.policy.data.get('description', 'cloud-maid lambda policy')
      role:        self.policy.data['mode'].get('role', '')
      memory_size: self.policy.data['mode'].get('memory', 512)
  \<close>
\<close>

record policy =
  policy_name :: string
  policy_description :: "string option"
  policy_mode :: mode_data

definition PolicyLambda :: "policy \<Rightarrow> lambda_function" where
  "PolicyLambda p =
     \<lparr>fn_name = ''maid-'' @ policy_name p,
      fn_runtime = ''python2.7'',
      fn_description = (case policy_description p of
                          None \<Rightarrow> ''cloud-maid lambda policy'' | Some d \<Rightarrow> d),
      fn_handler = ''maid_policy.run'',
      fn_memory_size = (case mode_memory (policy_mode p) of None \<Rightarrow> 512 | Some m \<Rightarrow> m),
      fn_timeout = 60,
      fn_role = (case mode_role (policy_mode p) of None \<Rightarrow> [] | Some r \<Rightarrow> r),
      fn_alias = None\<rparr>"

text \<open>
  \<^verbatim>\<open>
  def get_events(self, session_factory):
      events = []
      events.append(CloudWatchEventSource(self.policy.data['mode'], session_factory))
      return events
  \<close>
\<close>

definition PolicyLambda_get_events :: "policy \<Rightarrow> event_source list" where
  "PolicyLambda_get_events p = [\<lparr>es_data = policy_mode p, es_prefix = ''maid-''\<rparr>]"

text \<open>
  \<^verbatim>\<open>
  def maid_archive(skip=None):
      required = ["concurrent", "yaml", "pkg_resources"]
      def lib_filter(root, dirs, files):
          if os.path.basename(root) == 'site-packages':
              for n in tuple(dirs):
                  if n not in required:
                      dirs.remove(n)
          return dirs, files
      return PythonPackageArchive(
          os.path.dirname(inspect.getabsfile(janitor)),
          os.path.abspath(os.path.join(os.path.dirname(sys.executable), '..')),
          skip=skip, lib_filter=lib_filter)
  \<close>
  The two directories are parameters: where the package \<^verbatim>\<open>janitor\<close> lies and where the
  virtualenv lies.
\<close>

definition maid_lib_filter :: walk_filter where
  "maid_lib_filter root dirs files =
     (if root \<noteq> [] \<and> last root = ''site-packages''
      then (filter (\<lambda>n. n \<in> set [''concurrent'', ''yaml'', ''pkg_resources'']) dirs, files)
      else (dirs, files))"

definition maid_archive :: "path \<Rightarrow> path \<Rightarrow> string option \<Rightarrow> archive" where
  "maid_archive janitor_dir venv sk =
     PythonPackageArchive janitor_dir venv sk (Some maid_lib_filter) None"

text \<open>
  \<^verbatim>\<open>
  PolicyHandlerTemplate = """\
  from janitor import mu

  def run(event, context):
      return mu.%s_handle(event, context)

  """
  \<close>
\<close>

definition PolicyHandlerTemplate :: "string \<Rightarrow> string" where
  "PolicyHandlerTemplate t =
     ''from janitor import mu'' @ [CHR 0x0A, CHR 0x0A] @
     ''def run(event, context):'' @ [CHR 0x0A] @
     ''    return mu.'' @ t @ ''_handle(event, context)'' @ [CHR 0x0A, CHR 0x0A]"

definition replace_char :: "char \<Rightarrow> char \<Rightarrow> string \<Rightarrow> string" where
  "replace_char x y s = map (\<lambda>c. if c = x then y else c) s"

text \<open>
  \<^verbatim>\<open>
  def get_archive(self):
      self.archive.create()
      self.archive.add_contents(
          zinfo('config.json'),
          json.dumps({'policies': [self.policy.data]}, indent=2))
      self.archive.add_contents(
          zinfo('maid_policy.py'),
          PolicyHandlerTemplate % (
              self.policy.data['mode']['type'].replace('-', '_')))
      self.archive.close()
      return self.archive
  \<close>
  \<open>dumps_policy p\<close> is the text \<^verbatim>\<open>json.dumps({'policies': [self.policy.data]}, indent=2)\<close>.
\<close>

definition PolicyLambda_get_archive :: "'h host \<Rightarrow> (policy \<Rightarrow> string) \<Rightarrow> policy \<Rightarrow> archive \<Rightarrow>
    (error + unit) \<times> archive" where
  "PolicyLambda_get_archive h dumps_policy p a =
     (case create h a of
        (Inl e, a1) \<Rightarrow> (Inl e, a1)
      | (Inr u, a1) \<Rightarrow>
     (case add_contents (zinfo ''config.json'') (dumps_policy p) a1 of
        (Inl e, a2) \<Rightarrow> (Inl e, a2)
      | (Inr u, a2) \<Rightarrow>
     (case mode_type (policy_mode p) of
        None \<Rightarrow> (Inl (KeyError ''type''), a2)
      | Some t \<Rightarrow>
     (case add_contents (zinfo ''maid_policy.py'')
             (PolicyHandlerTemplate (replace_char (CHR ''-'') (CHR ''_'') t)) a2 of
        (Inl e, a3) \<Rightarrow> (Inl e, a3)
      | (Inr u, a3) \<Rightarrow> close h a3))))"

section \<open>The manager\<close>

text \<open>
  \<^verbatim>\<open>
  def get_config(self):
      return {
          'FunctionName': self.name,
          'MemorySize': self.memory_size,
          'Role': self.role,
          'Description': self.description,
          'Runtime': self.runtime,
          'Handler': self.handler,
          'Timeout': self.timeout}
  \<close>
\<close>

definition get_config :: "lambda_function \<Rightarrow> (string \<times> pyval) list" where
  "get_config func =
     [(''FunctionName'', PStr (fn_name func)),
      (''MemorySize'', PInt (fn_memory_size func)),
      (''Role'', PStr (fn_role func)),
      (''Description'', PStr (fn_description func)),
      (''Runtime'', PStr (fn_runtime func)),
      (''Handler'', PStr (fn_handler func)),
      (''Timeout'', PInt (fn_timeout func))]"

text \<open>
  \<^verbatim>\<open>
  @staticmethod
  def delta_function(lambda_func, func):
      conf = func.get_config()
      for k in conf:
          if conf[k] != lambda_func['Configuration'][k]:
              return True
  \<close>
  The loop returns \<^verbatim>\<open>True\<close> at the first key that differs and falls off its end, which
  returns \<^verbatim>\<open>None\<close>, when none does. The keys are visited in the order of the list.
\<close>

fun delta_function_loop :: "pyval \<Rightarrow> (string \<times> pyval) list \<Rightarrow> error + pyval" where
  "delta_function_loop lambda_func [] = Inr PNone"
| "delta_function_loop lambda_func ((k, v) # conf) =
     (case getitem lambda_func ''Configuration'' of
        Inl e \<Rightarrow> Inl e
      | Inr c \<Rightarrow>
          (case getitem c k of
             Inl e \<Rightarrow> Inl e
           | Inr rv \<Rightarrow> if v \<noteq> rv then Inr (PBool True) else delta_function_loop lambda_func conf))"

definition delta_function :: "pyval \<Rightarrow> lambda_function \<Rightarrow> error + pyval" where
  "delta_function lambda_func func = delta_function_loop lambda_func (get_config func)"

text \<open>
  \<^verbatim>\<open>
  def _upload_func(self, s3_uri, func, archive):
      _, bucket, key_prefix = parse_s3(s3_uri)
      key = "%s/%s" % (key_prefix, func.name)
      transfer = S3Transfer(...)
      transfer.upload_file(
          archive.path, bucket=bucket, key=key,
          extra_args={'ServerSideEncryption': 'AES256'})
      return bucket, key
  \<close>
  \<^verbatim>\<open>parse_s3\<close> comes from \<^verbatim>\<open>janitor.utils\<close> and is a parameter; the transfer is a remote
  call.
\<close>

type_synonym s3_parser = "string \<Rightarrow> error + (string \<times> string \<times> string)"

definition upload_func :: "'w remote \<Rightarrow> s3_parser \<Rightarrow> string \<Rightarrow> lambda_function \<Rightarrow> archive \<Rightarrow>
    ('w, string \<times> string) prog" where
  "upload_func remote parse_s3 s3_uri func arch =
     (case parse_s3 s3_uri of
        Inl e \<Rightarrow> raise e
      | Inr (scheme, bucket, key_prefix) \<Rightarrow>
          (let key = key_prefix @ ''/'' @ fn_name func in
           case archive_path arch of
             Inl e \<Rightarrow> raise e
           | Inr p \<Rightarrow>
               bind_prog (invoke remote (Call ''s3'' ''upload_file''
                   [(''filename'', PStr p), (''bucket'', PStr bucket), (''key'', PStr key),
                    (''extra_args'', PDict [(''ServerSideEncryption'', PStr ''AES256'')])]))
                 (\<lambda>r. ret (bucket, key))))"

text \<open>
  \<^verbatim>\<open>
  def _create_or_update(self, func, role=None, s3_uri=None, qualifier=None):
      role = func.role or role
      assert role, "Lambda function role must be specified"
      archive = func.get_archive()
      lfunc = self.get(func.name, qualifier)
      if s3_uri:
          bucket, key = self._upload_func(s3_uri, func, archive)
          code_ref = {'S3Bucket': bucket, 'S3Key': key}
      else:
          code_ref = {'ZipFile': archive.get_bytes()}
      if lfunc:
          result = lfunc['Configuration']
          if archive.get_checksum() != lfunc['Configuration']['CodeSha256']:
              params = dict(FunctionName=func.name, Publish=True)
              params.update(code_ref)
              result = self.client.update_function_code(**params)
          if self.delta_function(lfunc, func):
              result = self.client.update_function_configuration(**func.get_config())
      else:
          params = func.get_config()
          params.update({'Publish': True, 'Code': code_ref})
          result = self.client.create_function(**params)
      return result
  \<close>
  \<^verbatim>\<open>get_archive\<close> is abstract in \<^verbatim>\<open>LambdaFunction\<close>: the model takes what the call gives, an
  archive or an exception.
\<close>

definition code_reference :: "'w remote \<Rightarrow> s3_parser \<Rightarrow> string option \<Rightarrow> lambda_function \<Rightarrow>
    archive \<Rightarrow> ('w, (string \<times> pyval) list) prog" where
  "code_reference remote parse_s3 s3_uri func arch =
     (if str_truthy s3_uri then
        bind_prog (upload_func remote parse_s3 (the s3_uri) func arch) (\<lambda>bk.
          ret [(''S3Bucket'', PStr (fst bk)), (''S3Key'', PStr (snd bk))])
      else (case get_bytes arch of
              Inl e \<Rightarrow> raise e
            | Inr b \<Rightarrow> ret [(''ZipFile'', PStr b)]))"

definition update_code_call :: "lambda_function \<Rightarrow> (string \<times> pyval) list \<Rightarrow> call" where
  "update_code_call func code_ref =
     Call ''lambda'' ''update_function_code''
       ([(''FunctionName'', PStr (fn_name func)), (''Publish'', PBool True)] @ code_ref)"

definition update_config_call :: "lambda_function \<Rightarrow> call" where
  "update_config_call func = Call ''lambda'' ''update_function_configuration'' (get_config func)"

definition create_call :: "lambda_function \<Rightarrow> (string \<times> pyval) list \<Rightarrow> call" where
  "create_call func code_ref =
     Call ''lambda'' ''create_function''
       (get_config func @ [(''Publish'', PBool True), (''Code'', PDict code_ref)])"

definition update_existing :: "'w remote \<Rightarrow> 'h host \<Rightarrow> lambda_function \<Rightarrow> archive \<Rightarrow> pyval \<Rightarrow>
    (string \<times> pyval) list \<Rightarrow> ('w, pyval) prog" where
  "update_existing remote h func arch lfunc code_ref =
     (case getitem lfunc ''Configuration'' of
        Inl e \<Rightarrow> raise e
      | Inr result0 \<Rightarrow>
     (case get_checksum h arch of
        Inl e \<Rightarrow> raise e
      | Inr cs \<Rightarrow>
     (case getitem result0 ''CodeSha256'' of
        Inl e \<Rightarrow> raise e
      | Inr sha \<Rightarrow>
          bind_prog (if PStr cs \<noteq> sha then invoke remote (update_code_call func code_ref)
                     else ret result0) (\<lambda>result1.
            (case delta_function lfunc func of
               Inl e \<Rightarrow> raise e
             | Inr d \<Rightarrow>
                 if truthy d then invoke remote (update_config_call func)
                 else ret result1)))))"

definition create_or_update :: "'w remote \<Rightarrow> 'h host \<Rightarrow> s3_parser \<Rightarrow> lambda_function \<Rightarrow>
    error + archive \<Rightarrow> string option \<Rightarrow> string option \<Rightarrow> string option \<Rightarrow> ('w, pyval) prog" where
  "create_or_update remote h parse_s3 func get_archive role s3_uri qualifier =
     (let role1 = (if fn_role func \<noteq> [] then Some (fn_role func) else role) in
      if \<not> str_truthy role1 then raise (AssertionError ''Lambda function role must be specified'')
      else
        (case get_archive of
           Inl e \<Rightarrow> raise e
         | Inr arch \<Rightarrow>
             bind_prog (LambdaManager_get remote (fn_name func) qualifier) (\<lambda>lfunc.
             bind_prog (code_reference remote parse_s3 s3_uri func arch) (\<lambda>code_ref.
               if truthy lfunc then update_existing remote h func arch lfunc code_ref
               else invoke remote (create_call func code_ref)))))"

text \<open>
  \<^verbatim>\<open>
  def publish_alias(self, func_data, alias):
      if not alias:
          return func_data['FunctionArn']
      func_name = func_data['FunctionName']
      func_version = func_data['Version']
      exists = resource_exists(
          self.client.get_alias, FunctionName=func_name, Name=alias)
      if not exists:
          alias_result = self.client.create_alias(
              FunctionName=func_name, Name=alias, FunctionVersion=func_version)
      else:
          if (exists['FunctionVersion'] == func_version and
              exists['Name'] == alias):
              return exists['AliasArn']
          alias_result = self.client.update_alias(
              FunctionName=func_name, Name=alias, FunctionVersion=func_version)
      return alias_result['AliasArn']
  \<close>
\<close>

definition get_alias :: "'w remote \<Rightarrow> pyval \<Rightarrow> string \<Rightarrow> ('w, pyval) prog" where
  "get_alias remote func_name alias =
     resource_exists (invoke remote (Call ''lambda'' ''get_alias''
       [(''FunctionName'', func_name), (''Name'', PStr alias)]))"

definition lift :: "error + 'a \<Rightarrow> ('w, 'a) prog" where
  "lift r = (case r of Inl e \<Rightarrow> raise e | Inr x \<Rightarrow> ret x)"

definition alias_call :: "string \<Rightarrow> pyval \<Rightarrow> string \<Rightarrow> pyval \<Rightarrow> call" where
  "alias_call opn func_name alias func_version =
     Call ''lambda'' opn
       [(''FunctionName'', func_name), (''Name'', PStr alias), (''FunctionVersion'', func_version)]"

definition publish_alias :: "'w remote \<Rightarrow> pyval \<Rightarrow> string option \<Rightarrow> ('w, pyval) prog" where
  "publish_alias remote func_data alias =
     (if \<not> str_truthy alias then lift (getitem func_data ''FunctionArn'')
      else
        bind_prog (lift (getitem func_data ''FunctionName'')) (\<lambda>func_name.
        bind_prog (lift (getitem func_data ''Version'')) (\<lambda>func_version.
        bind_prog (get_alias remote func_name (the alias)) (\<lambda>exists.
          if \<not> truthy exists then
            bind_prog (invoke remote (alias_call ''create_alias'' func_name (the alias) func_version))
              (\<lambda>alias_result. lift (getitem alias_result ''AliasArn''))
          else
            bind_prog (lift (getitem exists ''FunctionVersion'')) (\<lambda>v.
            bind_prog (if v = func_version then lift (getitem exists ''Name'') else ret PNone) (\<lambda>n.
              if v = func_version \<and> n = PStr (the alias) then lift (getitem exists ''AliasArn'')
              else
                bind_prog (invoke remote (alias_call ''update_alias'' func_name (the alias) func_version))
                  (\<lambda>alias_result. lift (getitem alias_result ''AliasArn''))))))))"

text \<open>
  \<^verbatim>\<open>
  def remove(self, func, alias=None):
      log.info("Removing maid policy lambda function %s", func.name)
      for e in func.get_events(self.session_factory):
          e.remove(func)
      self.client.delete_function(FunctionName=func.name)
  \<close>
  \<^verbatim>\<open>get_events\<close> is abstract in \<^verbatim>\<open>LambdaFunction\<close>: the model takes the list it gives.
\<close>

fun remove_events :: "'w remote \<Rightarrow> event_source list \<Rightarrow> lambda_function \<Rightarrow> ('w, unit) prog" where
  "remove_events remote [] func = ret ()"
| "remove_events remote (e # es) func =
     bind_prog (CloudWatchEventSource_remove remote e func) (\<lambda>u. remove_events remote es func)"

definition LambdaManager_remove :: "'w remote \<Rightarrow> event_source list \<Rightarrow> lambda_function \<Rightarrow>
    ('w, unit) prog" where
  "LambdaManager_remove remote events func =
     bind_prog (remove_events remote events func) (\<lambda>u.
     bind_prog (invoke remote (Call ''lambda'' ''delete_function''
                  [(''FunctionName'', PStr (fn_name func))])) (\<lambda>r. ret ()))"

section \<open>Example policies\<close>

text \<open>
  Two of the policies of the module's docstring:
  \<^verbatim>\<open>
  - name: ec2-tag-compliance
    mode:
      type: cloudtrail
      sources:
       - ec2.amazonaws.com
      events:
       - RunInstances
  - name: s3-bucket-check
    mode:
      type: periodic
      schedule: "rate(1 day)"
  \<close>
\<close>

definition ec2_tag_compliance :: policy where
  "ec2_tag_compliance =
     \<lparr>policy_name = ''ec2-tag-compliance'', policy_description = None,
      policy_mode = \<lparr>mode_type = Some ''cloudtrail'', mode_sources = Some [''ec2.amazonaws.com''],
                     mode_events = Some [''RunInstances''], mode_schedule = None,
                     mode_role = None, mode_memory = None\<rparr>\<rparr>"

definition s3_bucket_check :: policy where
  "s3_bucket_check =
     \<lparr>policy_name = ''s3-bucket-check'', policy_description = None,
      policy_mode = \<lparr>mode_type = Some ''periodic'', mode_sources = None,
                     mode_events = None, mode_schedule = Some ''rate(1 day)'',
                     mode_role = None, mode_memory = None\<rparr>\<rparr>"

text \<open>A provider on which nothing exists: every call is answered with not-found.\<close>

definition nothing_exists :: "unit remote" where
  "nothing_exists c w = (Inl (ClientError ''ResourceNotFoundException'' ''not found''), w)"

text \<open>A provider that refuses every call.\<close>

definition access_denied :: "unit remote" where
  "access_denied c w = (Inl (ClientError ''AccessDeniedException'' ''denied''), w)"

text \<open>
  A provider with one rule and one target list: \<^verbatim>\<open>describe_rule\<close> answers \<open>rule\<close> (a
  response or an exception), \<^verbatim>\<open>list_targets_by_rule\<close> answers the targets, and every other
  call succeeds with an empty response.
\<close>

definition fixed_provider :: "error + pyval \<Rightarrow> pyval \<Rightarrow> unit remote" where
  "fixed_provider rule targets c w =
     (if op_of c = ''describe_rule'' then (rule, w)
      else if op_of c = ''list_targets_by_rule'' then (Inr (PDict [(''Targets'', targets)]), w)
      else (Inr (PDict []), w))"

text \<open>
  The function of the periodic policy once its alias is published, its event source, a
  remote rule that matches it, the same rule disabled, and a target list that holds the
  alias.
\<close>

definition s3_bucket_check_function :: lambda_function where
  "s3_bucket_check_function =
     (PolicyLambda s3_bucket_check)\<lparr>fn_alias := Some ''arn:maid-s3-bucket-check:live''\<rparr>"

definition s3_bucket_check_source :: event_source where
  "s3_bucket_check_source = \<lparr>es_data = policy_mode s3_bucket_check, es_prefix = ''maid-''\<rparr>"

definition matching_rule :: "(string \<times> pyval) list" where
  "matching_rule =
     [(''Name'', PStr ''maid-s3-bucket-check''), (''State'', PStr ''ENABLED''),
      (''ScheduleExpression'', PStr ''rate(1 day)''), (''Arn'', PStr ''arn:rule'')]"

definition disabled_rule :: "(string \<times> pyval) list" where
  "disabled_rule =
     [(''Name'', PStr ''maid-s3-bucket-check''), (''State'', PStr ''DISABLED''),
      (''ScheduleExpression'', PStr ''rate(1 day)''), (''Arn'', PStr ''arn:rule'')]"

definition alias_target :: pyval where
  "alias_target = PList [PDict [(''Id'', PStr ''1''), (''Arn'', PStr ''arn:maid-s3-bucket-check:live'')]]"

text \<open>
  A host. The package \<^verbatim>\<open>janitor\<close> lies in \<^verbatim>\<open>/app/janitor\<close>; its file \<^verbatim>\<open>mu.py\<close> has the mode
  \<^verbatim>\<open>0o100600\<close> (33152: a regular file that only its owner reads and writes), the other
  files \<^verbatim>\<open>0o100644\<close> (33188), the directories \<^verbatim>\<open>0o40755\<close> (16877). The virtualenv lies in
  \<^verbatim>\<open>/venv\<close>. The pattern matcher knows the one pattern shape the program uses, \<^verbatim>\<open>*suffix\<close>;
  the zip bytes and the hash are stand-ins.
\<close>

definition example_fs :: fsnode where
  "example_fs =
     Dir 16877
       [(''app'', Dir 16877
          [(''janitor'', Dir 16877
             [(''__init__.py'', File 33188 []),
              (''mu.py'', File 33152 ''import abc''),
              (''mu.pyc'', File 33188 ''magic'')])]),
        (''venv'', Dir 16877
          [(''lib'', Dir 16877
             [(''python2.7'', Dir 16877
                [(''site-packages'', Dir 16877
                   [(''yaml'', Dir 16877 [(''__init__.py'', File 33188 [])]),
                    (''boto3'', Dir 16877 [(''session.py'', File 33188 [])]),
                    (''six.py'', File 33188 [])])])])])]"

definition suffix_match :: "string \<Rightarrow> string \<Rightarrow> bool" where
  "suffix_match name pat =
     (case pat of
        [] \<Rightarrow> name = []
      | c # cs \<Rightarrow> if c = CHR ''*'' then startswith (rev name) (rev cs) else name = pat)"

definition example_host :: "nat host" where
  "example_host =
     \<lparr>host_fs = example_fs, fnmatch = suffix_match, new_temp_name = ''/tmp/tmpA'',
      zip_bytes = (\<lambda>es. concat (map (\<lambda>e. z_filename e @ z_data e) es)),
      sha256_new = 0, sha256_update = (\<lambda>n b. n + length b),
      sha256_digest = (\<lambda>n. replicate n (CHR ''x'')), b64encode = (\<lambda>d. d)\<rparr>"

text \<open>
  For the manager: a sealed archive whose temporary file holds eight bytes (on the
  example host its checksum is \<^verbatim>\<open>xxxxxxxx\<close>), the remote record of the function of the
  periodic policy with a given code checksum and a given timeout, a provider that
  answers \<^verbatim>\<open>get_function\<close> with a record and \<^verbatim>\<open>update_function_code\<close> with a given
  outcome, and a parser of upload targets.
\<close>

definition sealed_archive :: archive where
  "sealed_archive =
     (maid_archive [''app'', ''janitor''] [''venv''] (Some ''*pyc''))
       \<lparr>temp_archive_file := Some (''/tmp/tmpA'', ''zipbytes''), zip_file := Some [],
        closed := True\<rparr>"

definition remote_record :: "string \<Rightarrow> int \<Rightarrow> pyval" where
  "remote_record sha timeout =
     PDict [(''Configuration'',
             PDict [(''FunctionName'', PStr ''maid-s3-bucket-check''), (''MemorySize'', PInt 512),
                    (''Role'', PStr []), (''Description'', PStr ''cloud-maid lambda policy''),
                    (''Runtime'', PStr ''python2.7''), (''Handler'', PStr ''maid_policy.run''),
                    (''Timeout'', PInt timeout), (''CodeSha256'', PStr sha),
                    (''Version'', PStr ''3'')])]"

definition function_provider :: "pyval \<Rightarrow> error + pyval \<Rightarrow> unit remote" where
  "function_provider record code_outcome c w =
     (if op_of c = ''get_function'' then (Inr record, w)
      else if op_of c = ''update_function_code'' then (code_outcome, w)
      else (Inr (PDict []), w))"

definition example_parse_s3 :: s3_parser where
  "example_parse_s3 uri = Inr (''s3'', ''bucket'', ''prefix'')"

text \<open>
  A target list that holds only a target of another alias, and a function whose name
  does not start with the prefix of the event source (\<^verbatim>\<open>name\<close> is abstract in
  \<^verbatim>\<open>LambdaFunction\<close>: a subclass names its function as it likes).
\<close>

definition stale_target :: pyval where
  "stale_target = PList [PDict [(''Id'', PStr ''0''), (''Arn'', PStr ''arn:maid-s3-bucket-check:old'')]]"

definition custom_function :: lambda_function where
  "custom_function =
     (PolicyLambda s3_bucket_check)\<lparr>fn_name := ''custom'', fn_alias := Some ''arn:custom:live''\<rparr>"

section \<open>Running a program: unfolding lemmas\<close>

lemma invoke_apply:
  "invoke remote c (w, tr) = (fst (remote c w), (snd (remote c w), tr @ [c]))"
  by (simp add: invoke_def split: prod.split)

lemma swallow_client_error_apply:
  "swallow_client_error opr s =
     (case fst (opr s) of
        Inl (ClientError code msg) \<Rightarrow> (Inr (), snd (opr s))
      | Inl e \<Rightarrow> (Inl e, snd (opr s))
      | Inr v \<Rightarrow> (Inr (), snd (opr s)))"
  by (cases "opr s") (simp add: swallow_client_error_def split: sum.split error.split)

lemma bind_prog_apply:
  "bind_prog m k s = (case fst (m s) of Inl e \<Rightarrow> (Inl e, snd (m s)) | Inr x \<Rightarrow> k x (snd (m s)))"
  by (cases "m s") (simp add: bind_prog_def split: sum.split)

lemma resource_exists_apply:
  "resource_exists opr s =
     (case fst (opr s) of
        Inl (ClientError code msg) \<Rightarrow>
          if code = ''ResourceNotFoundException'' then (Inr (PBool False), snd (opr s))
          else (Inl (ClientError code msg), snd (opr s))
      | Inl e \<Rightarrow> (Inl e, snd (opr s))
      | Inr v \<Rightarrow> (Inr v, snd (opr s)))"
  by (cases "opr s") (simp add: resource_exists_def split: sum.split error.split)

section \<open>Properties of the lookups\<close>

lemma resource_exists_not_found:
  "opr s = (Inl (ClientError ''ResourceNotFoundException'' msg), s') \<Longrightarrow>
   resource_exists opr s = (Inr (PBool False), s')"
  by (simp add: resource_exists_def)

lemma resource_exists_reraise:
  "opr s = (Inl e, s') \<Longrightarrow> (\<forall>msg. e \<noteq> ClientError ''ResourceNotFoundException'' msg) \<Longrightarrow>
   resource_exists opr s = (Inl e, s')"
  by (cases e) (simp_all add: resource_exists_def)

lemma resource_exists_found:
  "opr s = (Inr v, s') \<Longrightarrow> resource_exists opr s = (Inr v, s')"
  by (simp add: resource_exists_def)

text \<open>
  C3. Each of the three lookups (function, alias, rule) is \<open>resource_exists\<close> around one
  remote call. Whatever the call \<open>opr\<close>: when it raises a \<^verbatim>\<open>ClientError\<close> whose code is
  \<^verbatim>\<open>ResourceNotFoundException\<close>, the lookup returns \<^verbatim>\<open>False\<close>, a falsy value, and no
  exception; when it raises anything else, the lookup raises that same exception; when
  it returns a response, the lookup returns it.
\<close>

theorem lookup_not_found_is_absence:
  "LambdaManager_get remote fn q =
     resource_exists (invoke remote (Call ''lambda'' ''get_function'' (get_function_params fn q)))
   \<and> get_alias remote fv al =
     resource_exists (invoke remote (Call ''lambda'' ''get_alias''
       [(''FunctionName'', fv), (''Name'', PStr al)]))
   \<and> CloudWatchEventSource_get remote pre rn =
     resource_exists (invoke remote (Call ''events'' ''describe_rule''
       [(''Name'', PStr (make_notification_id pre rn))]))
   \<and> (\<forall>opr s s' msg. opr s = (Inl (ClientError ''ResourceNotFoundException'' msg), s')
         \<longrightarrow> resource_exists opr s = (Inr (PBool False), s') \<and> \<not> truthy (PBool False))
   \<and> (\<forall>opr s s' e. opr s = (Inl e, s') \<and> (\<forall>msg. e \<noteq> ClientError ''ResourceNotFoundException'' msg)
         \<longrightarrow> resource_exists opr s = (Inl e, s'))
   \<and> (\<forall>opr s s' v. opr s = (Inr v, s') \<longrightarrow> resource_exists opr s = (Inr v, s'))"
proof (intro conjI allI impI)
  show "LambdaManager_get remote fn q =
     resource_exists (invoke remote (Call ''lambda'' ''get_function'' (get_function_params fn q)))"
    by (simp only: LambdaManager_get_def)
  show "get_alias remote fv al =
     resource_exists (invoke remote (Call ''lambda'' ''get_alias''
       [(''FunctionName'', fv), (''Name'', PStr al)]))"
    by (simp only: get_alias_def)
  show "CloudWatchEventSource_get remote pre rn =
     resource_exists (invoke remote (Call ''events'' ''describe_rule''
       [(''Name'', PStr (make_notification_id pre rn))]))"
    by (simp only: CloudWatchEventSource_get_def)
next
  fix opr :: "('b, pyval) prog" and s s' msg
  assume "opr s = (Inl (ClientError ''ResourceNotFoundException'' msg), s')"
  then show "resource_exists opr s = (Inr (PBool False), s')"
    by (rule resource_exists_not_found)
next
  show "\<not> truthy (PBool False)" by simp
next
  fix opr :: "('c, pyval) prog" and s s' e
  assume "opr s = (Inl e, s') \<and> (\<forall>msg. e \<noteq> ClientError ''ResourceNotFoundException'' msg)"
  then show "resource_exists opr s = (Inl e, s')"
    using resource_exists_reraise by blast
next
  fix opr :: "('d, pyval) prog" and s s' v
  assume "opr s = (Inr v, s')"
  then show "resource_exists opr s = (Inr v, s')"
    by (rule resource_exists_found)
qed


text \<open>
  At a provider that answers every call with not-found the function lookup returns
  \<^verbatim>\<open>False\<close>; at one that answers with an access error the lookup raises that error.
\<close>

theorem lookup_not_found_is_absence_witness:
  "LambdaManager_get (\<lambda>c w. (Inl (ClientError ''ResourceNotFoundException'' ''gone''), w))
       ''maid-p'' None ((), []) =
     (Inr (PBool False), ((), [Call ''lambda'' ''get_function'' [(''FunctionName'', PStr ''maid-p'')]]))
   \<and> LambdaManager_get (\<lambda>c w. (Inl (ClientError ''AccessDeniedException'' ''no''), w))
       ''maid-p'' None ((), []) =
     (Inl (ClientError ''AccessDeniedException'' ''no''),
      ((), [Call ''lambda'' ''get_function'' [(''FunctionName'', PStr ''maid-p'')]]))"
proof -
  let ?c = "Call ''lambda'' ''get_function'' [(''FunctionName'', PStr ''maid-p'')]"
  let ?nf = "\<lambda>(c::call) (w::unit). (Inl (ClientError ''ResourceNotFoundException'' ''gone'') :: error + pyval, w)"
  let ?ad = "\<lambda>(c::call) (w::unit). (Inl (ClientError ''AccessDeniedException'' ''no'') :: error + pyval, w)"
  have p: "get_function_params ''maid-p'' None = [(''FunctionName'', PStr ''maid-p'')]"
    by (simp add: get_function_params_def str_truthy_def)
  have a: "invoke ?nf ?c ((), []) = (Inl (ClientError ''ResourceNotFoundException'' ''gone''), ((), [?c]))"
    by (simp add: invoke_def)
  have b: "invoke ?ad ?c ((), []) = (Inl (ClientError ''AccessDeniedException'' ''no''), ((), [?c]))
      \<and> (\<forall>msg. ClientError ''AccessDeniedException'' ''no'' \<noteq> ClientError ''ResourceNotFoundException'' msg)"
    by (simp add: invoke_def)
  note nf = lookup_not_found_is_absence [THEN conjunct2, THEN conjunct2, THEN conjunct2,
      THEN conjunct1, rule_format, where opr = "invoke ?nf ?c" and s = "((), [])", OF a]
  note ad = lookup_not_found_is_absence [THEN conjunct2, THEN conjunct2, THEN conjunct2,
      THEN conjunct2, THEN conjunct1, rule_format, where opr = "invoke ?ad ?c" and s = "((), [])", OF b]
  have 1: "LambdaManager_get ?nf ''maid-p'' None ((), []) = (Inr (PBool False), ((), [?c]))"
    using nf by (simp only: lookup_not_found_is_absence [THEN conjunct1] p)
  have 2: "LambdaManager_get ?ad ''maid-p'' None ((), []) =
      (Inl (ClientError ''AccessDeniedException'' ''no''), ((), [?c]))"
    using ad by (simp only: lookup_not_found_is_absence [THEN conjunct1] p)
  from 1 2 show ?thesis by (rule conjI)
qed

section \<open>Properties of the event pattern\<close>

lemma asg_events_map:
  "asg_events acc es = acc @ map (\<lambda>e. case map_of ASG_EVENT_MAPPING e of None \<Rightarrow> e | Some v \<Rightarrow> v) es"
  by (induction es arbitrary: acc) (simp_all add: get_default_def)

text \<open>
  C10. For the event source of type \<^verbatim>\<open>asg-instance-state\<close> the \<^verbatim>\<open>detail-type\<close> list of the
  pattern has one name for each declared event, in the same order: the table's value when
  the declared name is a key of \<^verbatim>\<open>ASG_EVENT_MAPPING\<close>, the declared name itself when it is
  not. No name is rejected or dropped.
\<close>

theorem asg_event_names_translated:
  assumes "mode_type d = Some ''asg-instance-state''"
      and "evs = opt_list (mode_events d)"
      and "dt = map (\<lambda>e. case map_of ASG_EVENT_MAPPING e of None \<Rightarrow> e | Some v \<Rightarrow> v) evs"
  shows "event_payload d =
           Inr [(''source'', str_list [''aws.autoscaling'']), (''detail-type'', str_list dt)]
       \<and> render_event_pattern dumps d =
           Inr (Some (dumps (PDict [(''source'', str_list [''aws.autoscaling'']),
                                    (''detail-type'', str_list dt)])))
       \<and> length dt = length evs
       \<and> (\<forall>i < length evs.
             (\<forall>v. map_of ASG_EVENT_MAPPING (evs ! i) = Some v \<longrightarrow> dt ! i = v) \<and>
             (map_of ASG_EVENT_MAPPING (evs ! i) = None \<longrightarrow> dt ! i = evs ! i))"
proof -
  have p: "event_payload d =
      Inr [(''source'', str_list [''aws.autoscaling'']), (''detail-type'', str_list dt)]"
    using assms by (simp add: event_payload_def asg_events_map)
  then have r: "render_event_pattern dumps d =
      Inr (Some (dumps (PDict [(''source'', str_list [''aws.autoscaling'']),
                               (''detail-type'', str_list dt)])))"
    by (simp add: render_event_pattern_def)
  have l: "length dt = length evs" using assms(3) by simp
  have e: "\<forall>i < length evs.
             (\<forall>v. map_of ASG_EVENT_MAPPING (evs ! i) = Some v \<longrightarrow> dt ! i = v) \<and>
             (map_of ASG_EVENT_MAPPING (evs ! i) = None \<longrightarrow> dt ! i = evs ! i)"
    using assms(3) by simp
  from p r l e show ?thesis by blast
qed

text \<open>
  Two aliases of the table are translated and the unknown name between them is kept.
\<close>

theorem asg_event_names_translated_witness:
  "event_payload \<lparr>mode_type = Some ''asg-instance-state'', mode_sources = None,
       mode_events = Some [''launch-success'', ''custom-event'', ''terminate-failure''],
       mode_schedule = None, mode_role = None, mode_memory = None\<rparr> =
     Inr [(''source'', str_list [''aws.autoscaling'']),
          (''detail-type'', str_list [''EC2 Instance Launch Successful'', ''custom-event'',
                                      ''EC2 Instance Terminate Unsuccessful''])]"
proof -
  let ?d = "\<lparr>mode_type = Some ''asg-instance-state'', mode_sources = None,
       mode_events = Some [''launch-success'', ''custom-event'', ''terminate-failure''],
       mode_schedule = None, mode_role = None, mode_memory = None\<rparr>"
  let ?evs = "[''launch-success'', ''custom-event'', ''terminate-failure'']"
  have a: "mode_type ?d = Some ''asg-instance-state''" by simp
  have b: "?evs = opt_list (mode_events ?d)" by (simp add: opt_list_def)
  have c: "[''EC2 Instance Launch Successful'', ''custom-event'', ''EC2 Instance Terminate Unsuccessful'']
      = map (\<lambda>e. case map_of ASG_EVENT_MAPPING e of None \<Rightarrow> e | Some v \<Rightarrow> v) ?evs"
    by (simp add: ASG_EVENT_MAPPING_def)
  from asg_event_names_translated [OF a b c, of "\<lambda>v. []"] show ?thesis by (rule conjunct1)
qed

section \<open>Pause and resume\<close>

text \<open>
  C7, as stated, fails: a remote failure that is not not-found is swallowed too. At a
  provider that refuses every call with \<^verbatim>\<open>AccessDeniedException\<close>, \<^verbatim>\<open>pause\<close> issues
  \<^verbatim>\<open>disable_rule\<close> and returns normally.
\<close>

theorem pause_swallows_access_denied:
  "pause access_denied (PolicyLambda ec2_tag_compliance) ((), []) =
     (Inr (), ((), [Call ''events'' ''disable_rule'' [(''Rule'', PStr ''maid-ec2-tag-compliance'')]]))"
  by (simp add: pause_def swallow_client_error_apply invoke_apply access_denied_def
        PolicyLambda_def ec2_tag_compliance_def)

text \<open>
  C7, amended. \<^verbatim>\<open>pause\<close> and \<^verbatim>\<open>resume\<close> issue one call (\<^verbatim>\<open>disable_rule\<close>,
  \<^verbatim>\<open>enable_rule\<close>). Whatever the outcome \<open>r\<close> of that call: a \<^verbatim>\<open>ClientError\<close> of any code,
  not-found or other, is swallowed and the operation completes without error; an
  exception that is not a \<^verbatim>\<open>ClientError\<close> is propagated; a response completes the
  operation.
\<close>

theorem pause_resume_swallow_every_client_error:
  "(remote (Call ''events'' ''disable_rule'' [(''Rule'', PStr (fn_name func))]) w = (r, w') \<longrightarrow>
      pause remote func (w, tr) =
        ((case r of Inl (ClientError code msg) \<Rightarrow> Inr () | Inl e \<Rightarrow> Inl e | Inr v \<Rightarrow> Inr ()),
         (w', tr @ [Call ''events'' ''disable_rule'' [(''Rule'', PStr (fn_name func))]])))
   \<and> (remote (Call ''events'' ''enable_rule'' [(''Rule'', PStr (fn_name func))]) w = (r, w') \<longrightarrow>
      resume remote func (w, tr) =
        ((case r of Inl (ClientError code msg) \<Rightarrow> Inr () | Inl e \<Rightarrow> Inl e | Inr v \<Rightarrow> Inr ()),
         (w', tr @ [Call ''events'' ''enable_rule'' [(''Rule'', PStr (fn_name func))]])))"
  by (simp add: pause_def resume_def swallow_client_error_apply invoke_apply
        split: sum.split error.split)

text \<open>On a missing rule both operations complete without error.\<close>

theorem pause_resume_swallow_every_client_error_witness:
  "pause nothing_exists (PolicyLambda s3_bucket_check) ((), []) =
     (Inr (), ((), [Call ''events'' ''disable_rule'' [(''Rule'', PStr ''maid-s3-bucket-check'')]]))
   \<and> resume nothing_exists (PolicyLambda s3_bucket_check) ((), []) =
     (Inr (), ((), [Call ''events'' ''enable_rule'' [(''Rule'', PStr ''maid-s3-bucket-check'')]]))"
proof -
  let ?f = "PolicyLambda s3_bucket_check"
  have n: "fn_name ?f = ''maid-s3-bucket-check''"
    by (simp add: PolicyLambda_def s3_bucket_check_def)
  have a: "nothing_exists (Call ''events'' ''disable_rule'' [(''Rule'', PStr (fn_name ?f))]) () =
      (Inl (ClientError ''ResourceNotFoundException'' ''not found''), ())"
    by (simp add: nothing_exists_def)
  have b: "nothing_exists (Call ''events'' ''enable_rule'' [(''Rule'', PStr (fn_name ?f))]) () =
      (Inl (ClientError ''ResourceNotFoundException'' ''not found''), ())"
    by (simp add: nothing_exists_def)
  from pause_resume_swallow_every_client_error [THEN conjunct1, rule_format,
      where remote = nothing_exists and func = ?f and tr = "[]", OF a]
  have 1: "pause nothing_exists ?f ((), []) =
      (Inr (), ((), [Call ''events'' ''disable_rule'' [(''Rule'', PStr ''maid-s3-bucket-check'')]]))"
    by (simp add: n)
  from pause_resume_swallow_every_client_error [THEN conjunct2, rule_format,
      where remote = nothing_exists and func = ?f and tr = "[]", OF b]
  have 2: "resume nothing_exists ?f ((), []) =
      (Inr (), ((), [Call ''events'' ''enable_rule'' [(''Rule'', PStr ''maid-s3-bucket-check'')]]))"
    by (simp add: n)
  from 1 2 show ?thesis by (rule conjI)
qed

section \<open>Removing a function\<close>

text \<open>
  C2. \<^verbatim>\<open>LambdaManager.remove\<close> calls \<^verbatim>\<open>delete_function\<close> with no guard. On a provider where
  neither the rule nor the function exists, the event source's own \<^verbatim>\<open>remove\<close> finds no
  rule and deletes nothing, and then \<^verbatim>\<open>delete_function\<close> raises not-found, which
  \<^verbatim>\<open>remove\<close> passes on to its caller.
\<close>

theorem remove_missing_function_raises:
  "LambdaManager_remove nothing_exists (PolicyLambda_get_events s3_bucket_check)
       (PolicyLambda s3_bucket_check) ((), []) =
     (Inl (ClientError ''ResourceNotFoundException'' ''not found''),
      ((), [Call ''events'' ''describe_rule'' [(''Name'', PStr ''maid-s3-bucket-check'')],
            Call ''lambda'' ''delete_function'' [(''FunctionName'', PStr ''maid-s3-bucket-check'')]]))"
  by (simp add: LambdaManager_remove_def PolicyLambda_get_events_def PolicyLambda_def
        s3_bucket_check_def CloudWatchEventSource_remove_def CloudWatchEventSource_get_def
        make_notification_id_def bind_prog_apply resource_exists_apply invoke_apply
        nothing_exists_def ret_def)

section \<open>Properties of the event binding\<close>

lemma get_rule_run:
  "CloudWatchEventSource_get remote pre name (w, tr) = (r, s1) \<Longrightarrow>
   snd s1 = tr @ [Call ''events'' ''describe_rule'' [(''Name'', PStr (make_notification_id pre name))]]"
  by (auto simp: CloudWatchEventSource_get_def resource_exists_apply invoke_apply
        split: sum.splits error.splits if_splits)

lemma put_rule_step_trace:
  "snd (snd (put_rule_step remote rule params (w1, tr1))) =
     tr1 @ (if \<not> truthy rule \<or> (\<exists>src. rule = PDict src \<and> delta src params)
            then [Call ''events'' ''put_rule'' params] else [])"
  by (cases rule)
     (simp_all add: put_rule_step_def rule_delta_def bind_prog_apply invoke_apply ret_def raise_def
        split: sum.split)

lemma put_targets_step_trace:
  "\<exists>cs. snd (snd (put_targets_step remote uid func (w, tr))) =
      tr @ Call ''events'' ''list_targets_by_rule'' [(''Rule'', PStr (fn_name func))] # cs
    \<and> (cs = [] \<or> cs = [put_targets_call uid func])
    \<and> (\<forall>v. fst (put_targets_step remote uid func (w, tr)) = Inr v \<longrightarrow>
          (v = PBool True \<and> cs = [put_targets_call uid func]) \<or> (v = PNone \<and> cs = []))"
  by (simp add: put_targets_step_def bind_prog_apply invoke_apply ret_def raise_def
        split: sum.split)

lemma add_trace:
  assumes params: "rule_params dumps es func = Inr params"
      and lookup: "CloudWatchEventSource_get remote (es_prefix es) (fn_name func) (w, tr) = (Inr rule, s1)"
  shows "\<exists>cs. issued (add remote dumps uid es func (w, tr)) =
           tr @ [Call ''events'' ''describe_rule''
                   [(''Name'', PStr (make_notification_id (es_prefix es) (fn_name func)))]]
              @ (if \<not> truthy rule \<or> (\<exists>src. rule = PDict src \<and> delta src params)
                 then [Call ''events'' ''put_rule'' params] else [])
              @ cs
         \<and> (cs = [] \<or> cs = [Call ''events'' ''list_targets_by_rule'' [(''Rule'', PStr (fn_name func))]]
              \<or> cs = [Call ''events'' ''list_targets_by_rule'' [(''Rule'', PStr (fn_name func))],
                       put_targets_call uid func])"
proof -
  obtain w1 tr1 where s1: "s1 = (w1, tr1)" by (cases s1)
  from get_rule_run [OF lookup] s1
  have tr1: "tr1 = tr @ [Call ''events'' ''describe_rule''
                   [(''Name'', PStr (make_notification_id (es_prefix es) (fn_name func)))]]"
    by simp
  obtain r2 w2 tr2 where p: "put_rule_step remote rule params (w1, tr1) = (r2, (w2, tr2))"
    by (metis prod.exhaust)
  from put_rule_step_trace [of remote rule params w1 tr1] p
  have tr2: "tr2 = tr1 @ (if \<not> truthy rule \<or> (\<exists>src. rule = PDict src \<and> delta src params)
                 then [Call ''events'' ''put_rule'' params] else [])"
    by simp
  show ?thesis
  proof (cases r2)
    case (Inl e)
    then have "issued (add remote dumps uid es func (w, tr)) = tr2"
      using params lookup s1 p by (simp add: add_def bind_prog_apply issued_def)
    then show ?thesis using tr1 tr2 by simp
  next
    case (Inr u)
    then have a: "add remote dumps uid es func (w, tr) = put_targets_step remote uid func (w2, tr2)"
      using params lookup s1 p by (simp add: add_def bind_prog_apply)
    from put_targets_step_trace [of remote uid func w2 tr2]
    obtain cs where "snd (snd (put_targets_step remote uid func (w2, tr2))) =
        tr2 @ Call ''events'' ''list_targets_by_rule'' [(''Rule'', PStr (fn_name func))] # cs"
      and "cs = [] \<or> cs = [put_targets_call uid func]" by blast
    then show ?thesis using a tr1 tr2
      by (intro exI [of _ "Call ''events'' ''list_targets_by_rule'' [(''Rule'', PStr (fn_name func))] # cs"])
         (auto simp: issued_def)
  qed
qed

lemma delta_three_fields:
  "delta src tgt \<longleftrightarrow>
     dict_get src ''State'' \<noteq> dict_get tgt ''State''
   \<or> dict_get src ''EventPattern'' \<noteq> dict_get tgt ''EventPattern''
   \<or> dict_get src ''ScheduleExpression'' \<noteq> dict_get tgt ''ScheduleExpression''"
  by (simp add: delta_def)



lemma add_success:
  assumes "add remote dumps uid es func (w, tr) = (Inr v, s')"
  shows "\<exists>ps cs. snd s' = tr @ ps
             @ Call ''events'' ''list_targets_by_rule'' [(''Rule'', PStr (fn_name func))] # cs
         \<and> (\<forall>c \<in> set ps. op_of c = ''describe_rule'' \<or> op_of c = ''put_rule'')
         \<and> ((v = PBool True \<and> cs = [put_targets_call uid func]) \<or> (v = PNone \<and> cs = []))"
proof -
  from assms obtain params where params: "rule_params dumps es func = Inr params"
    by (cases "rule_params dumps es func") (simp_all add: add_def raise_def)
  obtain r1 w1 tr1 where g: "CloudWatchEventSource_get remote (es_prefix es) (fn_name func) (w, tr)
      = (r1, (w1, tr1))" by (metis prod.exhaust)
  from get_rule_run [OF g]
  have tr1: "tr1 = tr @ [Call ''events'' ''describe_rule''
                   [(''Name'', PStr (make_notification_id (es_prefix es) (fn_name func)))]]"
    by simp
  from assms params g obtain rule where r1: "r1 = Inr rule"
    by (cases r1) (simp_all add: add_def bind_prog_apply)
  obtain r2 w2 tr2 where p: "put_rule_step remote rule params (w1, tr1) = (r2, (w2, tr2))"
    by (metis prod.exhaust)
  from put_rule_step_trace [of remote rule params w1 tr1] p
  have tr2: "tr2 = tr1 @ (if \<not> truthy rule \<or> (\<exists>src. rule = PDict src \<and> delta src params)
                 then [Call ''events'' ''put_rule'' params] else [])"
    by simp
  from assms params g r1 p obtain u where r2: "r2 = Inr u"
    by (cases r2) (simp_all add: add_def bind_prog_apply)
  from assms params g r1 p r2
  have a: "put_targets_step remote uid func (w2, tr2) = (Inr v, s')"
    by (simp add: add_def bind_prog_apply)
  from put_targets_step_trace [of remote uid func w2 tr2] a
  obtain cs where cs: "snd s' =
        tr2 @ Call ''events'' ''list_targets_by_rule'' [(''Rule'', PStr (fn_name func))] # cs"
      and v: "(v = PBool True \<and> cs = [put_targets_call uid func]) \<or> (v = PNone \<and> cs = [])"
    by auto
  let ?ps = "[Call ''events'' ''describe_rule''
                   [(''Name'', PStr (make_notification_id (es_prefix es) (fn_name func)))]]
            @ (if \<not> truthy rule \<or> (\<exists>src. rule = PDict src \<and> delta src params)
                 then [Call ''events'' ''put_rule'' params] else [])"
  have "snd s' = tr @ ?ps @ Call ''events'' ''list_targets_by_rule'' [(''Rule'', PStr (fn_name func))] # cs"
    using cs tr1 tr2 by simp
  moreover have "\<forall>c \<in> set ?ps. op_of c = ''describe_rule'' \<or> op_of c = ''put_rule''"
    by simp
  ultimately show ?thesis using v by blast
qed

lemma calls_of_append: "calls_of opn (xs @ ys) = calls_of opn xs @ calls_of opn ys"
  by (simp add: calls_of_def)

lemma calls_of_none: "\<forall>c \<in> set xs. op_of c \<noteq> opn \<Longrightarrow> calls_of opn xs = []"
  by (induction xs) (simp_all add: calls_of_def)

lemmas example_defs =
  s3_bucket_check_function_def s3_bucket_check_source_def s3_bucket_check_def PolicyLambda_def
  matching_rule_def disabled_rule_def alias_target_def fixed_provider_def nothing_exists_def

lemmas add_defs =
  add_def rule_params_def render_event_pattern_def event_payload_def
  CloudWatchEventSource_get_def make_notification_id_def put_rule_step_def rule_delta_def
  delta_def dict_get_def put_targets_step_def targets_found_def put_targets_call_def
  str_truthy_def opt_str_def
  bind_prog_apply resource_exists_apply invoke_apply ret_def raise_def

lemma s3_params:
  "rule_params dumps s3_bucket_check_source s3_bucket_check_function =
     Inr [(''Name'', PStr ''maid-s3-bucket-check''), (''State'', PStr ''ENABLED''),
          (''ScheduleExpression'', PStr ''rate(1 day)'')]"
  by (simp add: example_defs add_defs)

lemma add_new_binding_run:
  "add (fixed_provider (Inl (ClientError ''ResourceNotFoundException'' ''no rule'')) (PList []))
       dumps ''uid'' s3_bucket_check_source s3_bucket_check_function ((), []) =
     (Inr (PBool True),
      ((), [Call ''events'' ''describe_rule'' [(''Name'', PStr ''maid-s3-bucket-check'')],
            Call ''events'' ''put_rule''
              [(''Name'', PStr ''maid-s3-bucket-check''), (''State'', PStr ''ENABLED''),
               (''ScheduleExpression'', PStr ''rate(1 day)'')],
            Call ''events'' ''list_targets_by_rule'' [(''Rule'', PStr ''maid-s3-bucket-check'')],
            put_targets_call ''uid'' s3_bucket_check_function]))"
  by (simp add: example_defs add_defs)

lemma lookup_missing_rule:
  "CloudWatchEventSource_get (fixed_provider (Inl (ClientError ''ResourceNotFoundException'' ''no rule'')) tg)
       (es_prefix s3_bucket_check_source) (fn_name s3_bucket_check_function) ((), []) =
     (Inr (PBool False), ((), [Call ''events'' ''describe_rule'' [(''Name'', PStr ''maid-s3-bucket-check'')]]))"
  by (simp add: example_defs add_defs)

lemma lookup_matching_rule:
  "CloudWatchEventSource_get (fixed_provider (Inr (PDict matching_rule)) tg)
       (es_prefix s3_bucket_check_source) (fn_name s3_bucket_check_function) ((), []) =
     (Inr (PDict matching_rule), ((), [Call ''events'' ''describe_rule'' [(''Name'', PStr ''maid-s3-bucket-check'')]]))"
  by (simp add: s3_bucket_check_function_def s3_bucket_check_source_def s3_bucket_check_def
        PolicyLambda_def fixed_provider_def add_defs)

text \<open>
  C4. Take a run of \<^verbatim>\<open>add\<close> whose pattern is built (\<open>params\<close> are the desired rule) and
  whose lookup returns \<open>rule\<close>; \<open>new\<close> are the calls the run issues. The first call is
  \<^verbatim>\<open>describe_rule\<close> under the derived name. When the rule is absent (a falsy lookup), one
  \<^verbatim>\<open>put_rule\<close> with the desired rule is issued; when the rule is present and \<^verbatim>\<open>delta\<close>
  holds, one \<^verbatim>\<open>put_rule\<close> with the desired rule is issued; when the rule is present and
  \<^verbatim>\<open>delta\<close> does not hold, no \<^verbatim>\<open>put_rule\<close> is issued and the run calls nothing but
  \<^verbatim>\<open>describe_rule\<close>, \<^verbatim>\<open>list_targets_by_rule\<close> and \<^verbatim>\<open>put_targets\<close>. \<^verbatim>\<open>delta\<close> holds
  exactly when \<^verbatim>\<open>State\<close>, \<^verbatim>\<open>EventPattern\<close> or \<^verbatim>\<open>ScheduleExpression\<close> differs, an absent
  key reading as \<^verbatim>\<open>None\<close>.
\<close>

theorem rule_reconciled_on_three_fields:
  assumes params: "rule_params dumps es func = Inr params"
      and lookup: "CloudWatchEventSource_get remote (es_prefix es) (fn_name func) (w, tr) = (Inr rule, s1)"
      and new: "new = drop (length tr) (issued (add remote dumps uid es func (w, tr)))"
  shows "take 1 new = [Call ''events'' ''describe_rule''
                         [(''Name'', PStr (make_notification_id (es_prefix es) (fn_name func)))]]
       \<and> (\<not> truthy rule \<longrightarrow> calls_of ''put_rule'' new = [Call ''events'' ''put_rule'' params])
       \<and> (\<forall>src. rule = PDict src \<and> delta src params \<longrightarrow>
             calls_of ''put_rule'' new = [Call ''events'' ''put_rule'' params])
       \<and> (\<forall>src. rule = PDict src \<and> src \<noteq> [] \<and> \<not> delta src params \<longrightarrow>
             calls_of ''put_rule'' new = [] \<and>
             set (map op_of new) \<subseteq> {''describe_rule'', ''list_targets_by_rule'', ''put_targets''})
       \<and> (\<forall>src. delta src params \<longleftrightarrow>
             dict_get src ''State'' \<noteq> dict_get params ''State''
           \<or> dict_get src ''EventPattern'' \<noteq> dict_get params ''EventPattern''
           \<or> dict_get src ''ScheduleExpression'' \<noteq> dict_get params ''ScheduleExpression'')"
proof -
  let ?d = "Call ''events'' ''describe_rule''
              [(''Name'', PStr (make_notification_id (es_prefix es) (fn_name func)))]"
  let ?l = "Call ''events'' ''list_targets_by_rule'' [(''Rule'', PStr (fn_name func))]"
  let ?p = "if \<not> truthy rule \<or> (\<exists>src. rule = PDict src \<and> delta src params)
            then [Call ''events'' ''put_rule'' params] else []"
  from add_trace [OF params lookup, of uid] new obtain cs where
    n: "new = [?d] @ ?p @ cs" and
    cs: "cs = [] \<or> cs = [?l] \<or> cs = [?l, put_targets_call uid func]"
    by auto
  have c0: "calls_of ''put_rule'' cs = []"
    using cs by (auto simp: calls_of_def put_targets_call_def)
  have c1: "calls_of ''put_rule'' new = ?p"
    using n c0 by (simp add: calls_of_append) (simp add: calls_of_def)
  have ops: "set (map op_of cs) \<subseteq> {''describe_rule'', ''list_targets_by_rule'', ''put_targets''}"
    using cs by (auto simp: put_targets_call_def)
  have 1: "take 1 new = [?d]" using n by simp
  have 2: "\<not> truthy rule \<longrightarrow> calls_of ''put_rule'' new = [Call ''events'' ''put_rule'' params]"
    using c1 by simp
  have 3: "\<forall>src. rule = PDict src \<and> delta src params \<longrightarrow>
             calls_of ''put_rule'' new = [Call ''events'' ''put_rule'' params]"
    using c1 by simp
  have 4: "\<forall>src. rule = PDict src \<and> src \<noteq> [] \<and> \<not> delta src params \<longrightarrow>
             calls_of ''put_rule'' new = [] \<and>
             set (map op_of new) \<subseteq> {''describe_rule'', ''list_targets_by_rule'', ''put_targets''}"
  proof (intro allI impI)
    fix src assume a: "rule = PDict src \<and> src \<noteq> [] \<and> \<not> delta src params"
    then have "?p = []" by simp
    then show "calls_of ''put_rule'' new = [] \<and>
             set (map op_of new) \<subseteq> {''describe_rule'', ''list_targets_by_rule'', ''put_targets''}"
      using c1 n ops by simp
  qed
  from 1 2 3 4 delta_three_fields show ?thesis by blast
qed

text \<open>
  The periodic policy: with no rule yet, one \<^verbatim>\<open>put_rule\<close> is issued; with a rule that
  matches on the three fields, none.
\<close>

theorem rule_reconciled_on_three_fields_witness:
  "calls_of ''put_rule'' (issued
     (add (fixed_provider (Inl (ClientError ''ResourceNotFoundException'' ''no rule'')) (PList []))
        (\<lambda>v. ''{}'') ''uid'' s3_bucket_check_source s3_bucket_check_function ((), []))) =
     [Call ''events'' ''put_rule''
        [(''Name'', PStr ''maid-s3-bucket-check''), (''State'', PStr ''ENABLED''),
         (''ScheduleExpression'', PStr ''rate(1 day)'')]]
   \<and> calls_of ''put_rule'' (issued
     (add (fixed_provider (Inr (PDict matching_rule)) alias_target)
        (\<lambda>v. ''{}'') ''uid'' s3_bucket_check_source s3_bucket_check_function ((), []))) = []"
proof -
  let ?params = "[(''Name'', PStr ''maid-s3-bucket-check''), (''State'', PStr ''ENABLED''),
         (''ScheduleExpression'', PStr ''rate(1 day)'')]"
  have f: "\<not> truthy (PBool False)" by simp
  have m: "PDict matching_rule = PDict matching_rule \<and> matching_rule \<noteq> [] \<and>
      \<not> delta matching_rule ?params"
    by (simp add: matching_rule_def delta_def dict_get_def)
  note t1 = rule_reconciled_on_three_fields [OF s3_params [of "\<lambda>v. ''{}''"]
      lookup_missing_rule [of "PList []"] refl, where uid = "''uid''"]
  note t2 = rule_reconciled_on_three_fields [OF s3_params [of "\<lambda>v. ''{}''"]
      lookup_matching_rule [of alias_target] refl, where uid = "''uid''"]
  from t1 f have 1: "calls_of ''put_rule'' (issued
     (add (fixed_provider (Inl (ClientError ''ResourceNotFoundException'' ''no rule'')) (PList []))
        (\<lambda>v. ''{}'') ''uid'' s3_bucket_check_source s3_bucket_check_function ((), []))) =
     [Call ''events'' ''put_rule'' ?params]"
    by simp
  from t2 m have 2: "calls_of ''put_rule'' (issued
     (add (fixed_provider (Inr (PDict matching_rule)) alias_target)
        (\<lambda>v. ''{}'') ''uid'' s3_bucket_check_source s3_bucket_check_function ((), []))) = []"
    by simp
  from 1 2 show ?thesis by (rule conjI)
qed

text \<open>
  C8, as stated, fails: the rule exists but is disabled and the target is already listed.
  \<^verbatim>\<open>add\<close> updates the rule with \<^verbatim>\<open>put_rule\<close> and then returns \<^verbatim>\<open>None\<close>, a falsy value,
  although it changed remote state.
\<close>

theorem add_rule_updated_returns_none:
  "add (fixed_provider (Inr (PDict disabled_rule)) alias_target) (\<lambda>v. ''{}'') ''uid''
       s3_bucket_check_source s3_bucket_check_function ((), []) =
     (Inr PNone,
      ((), [Call ''events'' ''describe_rule'' [(''Name'', PStr ''maid-s3-bucket-check'')],
            Call ''events'' ''put_rule''
              [(''Name'', PStr ''maid-s3-bucket-check''), (''State'', PStr ''ENABLED''),
               (''ScheduleExpression'', PStr ''rate(1 day)'')],
            Call ''events'' ''list_targets_by_rule'' [(''Rule'', PStr ''maid-s3-bucket-check'')]]))
   \<and> \<not> truthy PNone"
  by (simp add: example_defs add_defs)

lemma startswith_iff: "startswith s p \<longleftrightarrow> (\<exists>suf. s = p @ suf)"
  by (induction s p rule: startswith.induct) auto

lemma contains_iff: "contains s a \<longleftrightarrow> (\<exists>pre suf. s = pre @ a @ suf)"
proof (induction s)
  case Nil
  then show ?case by simp
next
  case (Cons c cs)
  have "(\<exists>pre suf. c # cs = pre @ a @ suf) \<longleftrightarrow>
        (\<exists>suf. c # cs = a @ suf) \<or> (\<exists>pre suf. cs = pre @ a @ suf)"
  proof
    assume "\<exists>pre suf. c # cs = pre @ a @ suf"
    then obtain pre suf where e: "c # cs = pre @ a @ suf" by blast
    show "(\<exists>suf. c # cs = a @ suf) \<or> (\<exists>pre suf. cs = pre @ a @ suf)"
    proof (cases pre)
      case Nil
      then show ?thesis using e by auto
    next
      case (Cons x xs)
      then have "cs = xs @ a @ suf" using e by simp
      then show ?thesis by blast
    qed
  next
    assume "(\<exists>suf. c # cs = a @ suf) \<or> (\<exists>pre suf. cs = pre @ a @ suf)"
    then show "\<exists>pre suf. c # cs = pre @ a @ suf"
    proof
      assume "\<exists>suf. c # cs = a @ suf"
      then obtain suf where "c # cs = [] @ a @ suf" by auto
      then show ?thesis by blast
    next
      assume "\<exists>pre suf. cs = pre @ a @ suf"
      then obtain pre suf where "c # cs = (c # pre) @ a @ suf" by auto
      then show ?thesis by blast
    qed
  qed
  then show ?case using Cons.IH by (simp add: startswith_iff)
qed

lemma arn_of_getitem: "arn_of t = Some s \<Longrightarrow> getitem t ''Arn'' = Inr (PStr s)"
  by (auto simp: arn_of_def split: pyval.splits option.splits)

lemma find_target_listed:
  assumes "list_all (\<lambda>t. arn_of t \<noteq> None) ts"
  shows "find_target (Some a) found ts =
           Inr (found \<or> list_ex (\<lambda>t. \<exists>s pre suf. arn_of t = Some s \<and> s = pre @ a @ suf) ts)"
  using assms
proof (induction ts arbitrary: found)
  case Nil
  then show ?case by simp
next
  case (Cons t ts)
  from Cons.prems obtain s where s: "arn_of t = Some s" by auto
  from Cons.prems have r: "list_all (\<lambda>t. arn_of t \<noteq> None) ts" by simp
  have "find_target (Some a) found (t # ts) =
      find_target (Some a) (if contains s a then True else found) ts"
    using arn_of_getitem [OF s] by simp
  also have "\<dots> = Inr ((if contains s a then True else found) \<or>
      list_ex (\<lambda>t. \<exists>s pre suf. arn_of t = Some s \<and> s = pre @ a @ suf) ts)"
    by (rule Cons.IH [OF r])
  finally show ?case using s by (auto simp: contains_iff)
qed

lemma add_reaches_targets:
  assumes params: "rule_params dumps es func = Inr params"
      and lookup: "CloudWatchEventSource_get remote (es_prefix es) (fn_name func) (w, tr) = (Inr rule, s1)"
      and rulestep: "put_rule_step remote rule params s1 = (Inr u, s2)"
  shows "add remote dumps uid es func (w, tr) = put_targets_step remote uid func s2"
  using assms by (simp add: add_def bind_prog_apply)

lemma matching_rule_step:
  "put_rule_step (fixed_provider (Inr (PDict matching_rule)) tg) (PDict matching_rule)
       [(''Name'', PStr ''maid-s3-bucket-check''), (''State'', PStr ''ENABLED''),
        (''ScheduleExpression'', PStr ''rate(1 day)'')]
       ((), [Call ''events'' ''describe_rule'' [(''Name'', PStr ''maid-s3-bucket-check'')]]) =
     (Inr (), ((), [Call ''events'' ''describe_rule'' [(''Name'', PStr ''maid-s3-bucket-check'')]]))"
  by (simp add: put_rule_step_def rule_delta_def delta_def dict_get_def matching_rule_def ret_def)

lemma s3_function_name_alias:
  "fn_name s3_bucket_check_function = ''maid-s3-bucket-check''"
  "fn_alias s3_bucket_check_function = Some ''arn:maid-s3-bucket-check:live''"
  by (simp_all add: s3_bucket_check_function_def PolicyLambda_def s3_bucket_check_def)

lemma fixed_provider_listing:
  "fixed_provider r tg (Call ''events'' ''list_targets_by_rule'' kw) () =
     (Inr (PDict [(''Targets'', tg)]), ())"
  by (simp add: fixed_provider_def)

lemma fixed_provider_put_targets:
  "fixed_provider r tg (put_targets_call uid func) () = (Inr (PDict []), ())"
  by (simp add: fixed_provider_def put_targets_call_def)

text \<open>
  C8, amended. Take a run of \<^verbatim>\<open>add\<close> that reaches the targets: the pattern is built, the
  lookup returns, the rule step succeeds and leaves the provider in \<open>w2\<close> with the calls
  \<open>tr2\<close>, and \<^verbatim>\<open>list_targets_by_rule\<close> answers with the targets \<open>ts\<close>, each with a string
  \<^verbatim>\<open>Arn\<close>; the alias of the function is the string \<open>a\<close>. When the \<^verbatim>\<open>Arn\<close> of some listed
  target contains \<open>a\<close>, \<^verbatim>\<open>add\<close> returns \<^verbatim>\<open>None\<close> and issues nothing after the listing. When
  no listed target's \<^verbatim>\<open>Arn\<close> contains \<open>a\<close>, \<^verbatim>\<open>add\<close> issues \<^verbatim>\<open>put_targets\<close> and, unless that
  call raises, returns \<^verbatim>\<open>True\<close>. Whether the rule step issued \<^verbatim>\<open>put_rule\<close> (it is part of
  \<open>tr2\<close> or not) has no effect on the result. And whenever \<^verbatim>\<open>add\<close> returns, the result is
  \<^verbatim>\<open>True\<close> with one \<^verbatim>\<open>put_targets\<close> issued, or \<^verbatim>\<open>None\<close> with none.
\<close>

theorem add_returns_true_iff_target_added:
  assumes params: "rule_params dumps es func = Inr params"
      and lookup: "CloudWatchEventSource_get remote (es_prefix es) (fn_name func) (w, tr) = (Inr rule, s1)"
      and rulestep: "put_rule_step remote rule params s1 = (Inr u, (w2, tr2))"
      and listing: "remote (Call ''events'' ''list_targets_by_rule'' [(''Rule'', PStr (fn_name func))]) w2
                      = (Inr response, w3)"
      and targets: "getitem response ''Targets'' = Inr (PList ts)"
      and arns: "list_all (\<lambda>t. arn_of t \<noteq> None) ts"
      and target: "fn_alias func = Some a"
      and out: "out = add remote dumps uid es func (w, tr)"
  shows "(list_ex (\<lambda>t. \<exists>s pre suf. arn_of t = Some s \<and> s = pre @ a @ suf) ts \<longrightarrow>
            out = (Inr PNone,
                   (w3, tr2 @ [Call ''events'' ''list_targets_by_rule'' [(''Rule'', PStr (fn_name func))]])))
       \<and> (\<not> list_ex (\<lambda>t. \<exists>s pre suf. arn_of t = Some s \<and> s = pre @ a @ suf) ts \<longrightarrow>
            out = (case remote (put_targets_call uid func) w3 of
                     (Inl e, w4) \<Rightarrow> Inl e
                   | (Inr r, w4) \<Rightarrow> Inr (PBool True),
                   (snd (remote (put_targets_call uid func) w3),
                    tr2 @ [Call ''events'' ''list_targets_by_rule'' [(''Rule'', PStr (fn_name func))],
                           put_targets_call uid func])))
       \<and> (\<forall>v s'. out = (Inr v, s') \<longrightarrow>
            (v = PBool True \<and>
               calls_of ''put_targets'' (drop (length tr) (snd s')) = [put_targets_call uid func])
          \<or> (v = PNone \<and> calls_of ''put_targets'' (drop (length tr) (snd s')) = []))"
proof (intro conjI impI allI)
  let ?l = "Call ''events'' ''list_targets_by_rule'' [(''Rule'', PStr (fn_name func))]"
  let ?P = "list_ex (\<lambda>t. \<exists>s pre suf. arn_of t = Some s \<and> s = pre @ a @ suf) ts"
  have a: "out = put_targets_step remote uid func (w2, tr2)"
    unfolding out by (rule add_reaches_targets [OF params lookup rulestep])
  have f: "targets_found (fn_alias func) response = Inr ?P"
    using targets find_target_listed [OF arns, of a False]
    by (simp add: targets_found_def target)
  {
    assume ?P
    then show "out = (Inr PNone, (w3, tr2 @ [?l]))"
      unfolding a using f listing
      by (simp add: put_targets_step_def bind_prog_apply invoke_apply ret_def)
  }
  {
    assume "\<not> ?P"
    then show "out = (case remote (put_targets_call uid func) w3 of
                     (Inl e, w4) \<Rightarrow> Inl e
                   | (Inr r, w4) \<Rightarrow> Inr (PBool True),
                   (snd (remote (put_targets_call uid func) w3),
                    tr2 @ [?l, put_targets_call uid func]))"
      unfolding a using f listing
      by (simp add: put_targets_step_def bind_prog_apply invoke_apply ret_def
            split: prod.split sum.split)
  }
  {
    fix v s' assume "out = (Inr v, s')"
    then have r: "add remote dumps uid es func (w, tr) = (Inr v, s')" using out by simp
    from add_success [OF r] obtain ps cs where
      t: "snd s' = tr @ ps @ ?l # cs"
      and ps: "\<forall>c \<in> set ps. op_of c = ''describe_rule'' \<or> op_of c = ''put_rule''"
      and v: "(v = PBool True \<and> cs = [put_targets_call uid func]) \<or> (v = PNone \<and> cs = [])"
      by blast
    from ps have "\<forall>c \<in> set ps. op_of c \<noteq> ''put_targets''" by auto
    then have n: "calls_of ''put_targets'' ps = []" by (rule calls_of_none)
    have "calls_of ''put_targets'' (drop (length tr) (snd s')) = calls_of ''put_targets'' cs"
      using t n by (simp add: calls_of_append) (simp add: calls_of_def)
    then show "(v = PBool True \<and>
               calls_of ''put_targets'' (drop (length tr) (snd s')) = [put_targets_call uid func])
          \<or> (v = PNone \<and> calls_of ''put_targets'' (drop (length tr) (snd s')) = [])"
      using v by (auto simp: calls_of_def put_targets_call_def)
  }
qed

text \<open>
  The rule matches, so no \<^verbatim>\<open>put_rule\<close> is issued. With only a target of another alias
  listed, \<^verbatim>\<open>add\<close> adds the target and returns \<^verbatim>\<open>True\<close>; with the alias's own target
  listed, it returns \<^verbatim>\<open>None\<close>.
\<close>

theorem add_returns_true_iff_target_added_witness:
  "add (fixed_provider (Inr (PDict matching_rule)) stale_target) (\<lambda>v. ''{}'') ''uid''
       s3_bucket_check_source s3_bucket_check_function ((), []) =
     (Inr (PBool True),
      ((), [Call ''events'' ''describe_rule'' [(''Name'', PStr ''maid-s3-bucket-check'')],
            Call ''events'' ''list_targets_by_rule'' [(''Rule'', PStr ''maid-s3-bucket-check'')],
            put_targets_call ''uid'' s3_bucket_check_function]))
   \<and> add (fixed_provider (Inr (PDict matching_rule)) alias_target) (\<lambda>v. ''{}'') ''uid''
       s3_bucket_check_source s3_bucket_check_function ((), []) =
     (Inr PNone,
      ((), [Call ''events'' ''describe_rule'' [(''Name'', PStr ''maid-s3-bucket-check'')],
            Call ''events'' ''list_targets_by_rule'' [(''Rule'', PStr ''maid-s3-bucket-check'')]]))"
proof -
  let ?a = "''arn:maid-s3-bucket-check:live''"
  let ?stale = "PDict [(''Id'', PStr ''0''), (''Arn'', PStr ''arn:maid-s3-bucket-check:old'')]"
  let ?live = "PDict [(''Id'', PStr ''1''), (''Arn'', PStr ''arn:maid-s3-bucket-check:live'')]"
  have ls: "fixed_provider (Inr (PDict matching_rule)) stale_target
      (Call ''events'' ''list_targets_by_rule'' [(''Rule'', PStr (fn_name s3_bucket_check_function))]) ()
      = (Inr (PDict [(''Targets'', stale_target)]), ())"
    by (rule fixed_provider_listing)
  have ll: "fixed_provider (Inr (PDict matching_rule)) alias_target
      (Call ''events'' ''list_targets_by_rule'' [(''Rule'', PStr (fn_name s3_bucket_check_function))]) ()
      = (Inr (PDict [(''Targets'', alias_target)]), ())"
    by (rule fixed_provider_listing)
  have ts: "getitem (PDict [(''Targets'', stale_target)]) ''Targets'' = Inr (PList [?stale])"
    by (simp add: stale_target_def)
  have tl: "getitem (PDict [(''Targets'', alias_target)]) ''Targets'' = Inr (PList [?live])"
    by (simp add: alias_target_def)
  have as: "list_all (\<lambda>t. arn_of t \<noteq> None) [?stale]" by (simp add: arn_of_def)
  have al: "list_all (\<lambda>t. arn_of t \<noteq> None) [?live]" by (simp add: arn_of_def)
  have "\<not> contains ''arn:maid-s3-bucket-check:old'' ?a" by simp
  then have ns: "\<not> list_ex (\<lambda>t. \<exists>s pre suf. arn_of t = Some s \<and> s = pre @ ?a @ suf) [?stale]"
    by (simp add: arn_of_def contains_iff)
  have "contains ''arn:maid-s3-bucket-check:live'' ?a" by simp
  then have yl: "list_ex (\<lambda>t. \<exists>s pre suf. arn_of t = Some s \<and> s = pre @ ?a @ suf) [?live]"
    by (simp add: arn_of_def contains_iff)
  note t1 = add_returns_true_iff_target_added [OF s3_params [of "\<lambda>v. ''{}''"]
      lookup_matching_rule [of stale_target] matching_rule_step [of stale_target]
      ls ts as s3_function_name_alias(2) refl, where uid = "''uid''"]
  note t2 = add_returns_true_iff_target_added [OF s3_params [of "\<lambda>v. ''{}''"]
      lookup_matching_rule [of alias_target] matching_rule_step [of alias_target]
      ll tl al s3_function_name_alias(2) refl, where uid = "''uid''"]
  from t1 [THEN conjunct2, THEN conjunct1, rule_format, OF ns]
  have 1: "add (fixed_provider (Inr (PDict matching_rule)) stale_target) (\<lambda>v. ''{}'') ''uid''
       s3_bucket_check_source s3_bucket_check_function ((), []) =
     (Inr (PBool True),
      ((), [Call ''events'' ''describe_rule'' [(''Name'', PStr ''maid-s3-bucket-check'')],
            Call ''events'' ''list_targets_by_rule'' [(''Rule'', PStr ''maid-s3-bucket-check'')],
            put_targets_call ''uid'' s3_bucket_check_function]))"
    by (simp add: fixed_provider_put_targets s3_function_name_alias(1))
  from t2 [THEN conjunct1, rule_format, OF yl]
  have 2: "add (fixed_provider (Inr (PDict matching_rule)) alias_target) (\<lambda>v. ''{}'') ''uid''
       s3_bucket_check_source s3_bucket_check_function ((), []) =
     (Inr PNone,
      ((), [Call ''events'' ''describe_rule'' [(''Name'', PStr ''maid-s3-bucket-check'')],
            Call ''events'' ''list_targets_by_rule'' [(''Rule'', PStr ''maid-s3-bucket-check'')]]))"
    by (simp add: s3_function_name_alias(1))
  from 1 2 show ?thesis by (rule conjI)
qed

section \<open>The name of the rule\<close>

lemma startswith_append: "startswith (p @ s) p"
  by (induction p) simp_all

lemma make_notification_id_idem:
  "make_notification_id pre (make_notification_id pre n) = make_notification_id pre n"
  by (simp add: make_notification_id_def startswith_append)

lemma rule_params_name:
  "rule_params dumps es func = Inr params \<Longrightarrow> map_of params ''Name'' = Some (PStr (fn_name func))"
  by (auto simp: rule_params_def split: sum.splits)

lemma get_rule_issued:
  "issued (CloudWatchEventSource_get remote pre n (w, tr)) =
     tr @ [Call ''events'' ''describe_rule'' [(''Name'', PStr (make_notification_id pre n))]]"
  by (cases "CloudWatchEventSource_get remote pre n (w, tr)")
     (auto simp: issued_def dest: get_rule_run)

lemma add_calls:
  "list_all (\<lambda>c. c = Call ''events'' ''describe_rule''
                     [(''Name'', PStr (make_notification_id (es_prefix es) (fn_name func)))]
              \<or> (\<exists>params. rule_params dumps es func = Inr params \<and> c = Call ''events'' ''put_rule'' params)
              \<or> c = Call ''events'' ''list_targets_by_rule'' [(''Rule'', PStr (fn_name func))]
              \<or> c = put_targets_call uid func)
     (drop (length tr) (issued (add remote dumps uid es func (w, tr))))"
proof (cases "rule_params dumps es func")
  case (Inl e)
  then show ?thesis by (simp add: add_def raise_def issued_def)
next
  case (Inr params)
  obtain r1 s1 where g: "CloudWatchEventSource_get remote (es_prefix es) (fn_name func) (w, tr) = (r1, s1)"
    by (metis prod.exhaust)
  show ?thesis
  proof (cases r1)
    case (Inl e)
    then have "issued (add remote dumps uid es func (w, tr)) = snd s1"
      using Inr g by (simp add: add_def bind_prog_apply issued_def)
    then show ?thesis using get_rule_run [OF g] by simp
  next
    case r: (Inr rule)
    from add_trace [OF Inr g [unfolded r], of uid] show ?thesis
      using Inr by (auto simp: list_all_iff)
  qed
qed

lemma remove_calls:
  "list_all (\<lambda>c. c = Call ''events'' ''describe_rule''
                     [(''Name'', PStr (make_notification_id (es_prefix es) (fn_name func)))]
              \<or> c = Call ''events'' ''delete_rule'' [(''Name'', PStr (fn_name func))])
     (drop (length tr) (issued (CloudWatchEventSource_remove remote es func (w, tr))))"
proof -
  obtain r1 s1 where g: "CloudWatchEventSource_get remote (es_prefix es) (fn_name func) (w, tr) = (r1, s1)"
    by (metis prod.exhaust)
  obtain w1 tr1 where s1: "s1 = (w1, tr1)" by (cases s1)
  from get_rule_run [OF g] s1 have "tr1 = tr @ [Call ''events'' ''describe_rule''
                     [(''Name'', PStr (make_notification_id (es_prefix es) (fn_name func)))]]"
    by simp
  then show ?thesis using g s1
    by (cases r1)
       (simp_all add: CloudWatchEventSource_remove_def bind_prog_apply invoke_apply ret_def issued_def
          split: sum.split)
qed

text \<open>
  The derivation adds the prefix unless the name has it and is idempotent; the lookup
  names the rule by the derived name. For a name that starts with the prefix, as every
  name of \<^verbatim>\<open>PolicyLambda\<close> does, every call of \<^verbatim>\<open>add\<close> and \<^verbatim>\<open>remove\<close> names the same rule.
\<close>

lemma rule_name_derivation:
  "make_notification_id pre n = (if startswith n pre then n else pre @ n)
   \<and> make_notification_id pre (make_notification_id pre n) = make_notification_id pre n
   \<and> issued (CloudWatchEventSource_get remote pre n (w, tr)) =
       tr @ [Call ''events'' ''describe_rule'' [(''Name'', PStr (make_notification_id pre n))]]
   \<and> (startswith (fn_name func) (es_prefix es) \<longrightarrow>
        list_all (\<lambda>c. rule_named c = PStr (fn_name func))
          (drop (length tr) (issued (add remote dumps uid es func (w, tr))))
      \<and> list_all (\<lambda>c. rule_named c = PStr (fn_name func))
          (drop (length tr) (issued (CloudWatchEventSource_remove remote es func (w, tr)))))"
proof (intro conjI impI)
  show "make_notification_id pre n = (if startswith n pre then n else pre @ n)"
    by (simp add: make_notification_id_def)
  show "make_notification_id pre (make_notification_id pre n) = make_notification_id pre n"
    by (rule make_notification_id_idem)
  show "issued (CloudWatchEventSource_get remote pre n (w, tr)) =
       tr @ [Call ''events'' ''describe_rule'' [(''Name'', PStr (make_notification_id pre n))]]"
    by (rule get_rule_issued)
next
  assume p: "startswith (fn_name func) (es_prefix es)"
  then have m: "make_notification_id (es_prefix es) (fn_name func) = fn_name func"
    by (simp add: make_notification_id_def)
  have d: "rule_named (Call ''events'' ''describe_rule''
              [(''Name'', PStr (make_notification_id (es_prefix es) (fn_name func)))]) = PStr (fn_name func)"
    by (simp add: rule_named_def m)
  have pr: "rule_named (Call ''events'' ''put_rule'' params) = PStr (fn_name func)"
    if "rule_params dumps es func = Inr params" for params
    using rule_params_name [OF that] by (simp add: rule_named_def)
  have l: "rule_named (Call ''events'' ''list_targets_by_rule'' [(''Rule'', PStr (fn_name func))])
      = PStr (fn_name func)"
    by (simp add: rule_named_def dict_get_def)
  have pt: "rule_named (put_targets_call uid func) = PStr (fn_name func)"
    by (simp add: rule_named_def dict_get_def put_targets_call_def)
  have dl: "rule_named (Call ''events'' ''delete_rule'' [(''Name'', PStr (fn_name func))])
      = PStr (fn_name func)"
    by (simp add: rule_named_def)
  have "rule_named c = PStr (fn_name func)"
    if "c = Call ''events'' ''describe_rule''
                     [(''Name'', PStr (make_notification_id (es_prefix es) (fn_name func)))]
              \<or> (\<exists>params. rule_params dumps es func = Inr params \<and> c = Call ''events'' ''put_rule'' params)
              \<or> c = Call ''events'' ''list_targets_by_rule'' [(''Rule'', PStr (fn_name func))]
              \<or> c = put_targets_call uid func" for c
    using that
    apply (elim disjE exE conjE)
       apply (simp only: d)
      apply (simp only: pr)
     apply (simp only: l)
    apply (simp only: pt)
    done
  then show "list_all (\<lambda>c. rule_named c = PStr (fn_name func))
          (drop (length tr) (issued (add remote dumps uid es func (w, tr))))"
    by (rule list.pred_mono_strong [OF add_calls])
  have "rule_named c = PStr (fn_name func)"
    if "c = Call ''events'' ''describe_rule''
                     [(''Name'', PStr (make_notification_id (es_prefix es) (fn_name func)))]
              \<or> c = Call ''events'' ''delete_rule'' [(''Name'', PStr (fn_name func))]" for c
    using that
    apply (elim disjE)
     apply (simp only: d)
    apply (simp only: dl)
    done
  then show "list_all (\<lambda>c. rule_named c = PStr (fn_name func))
          (drop (length tr) (issued (CloudWatchEventSource_remove remote es func (w, tr))))"
    by (rule list.pred_mono_strong [OF remove_calls])
qed

text \<open>
  C9. Only the lookup derives the rule name: \<^verbatim>\<open>get\<close> calls \<^verbatim>\<open>_make_notification_id\<close>,
  while \<^verbatim>\<open>put_rule\<close>, \<^verbatim>\<open>list_targets_by_rule\<close>, \<^verbatim>\<open>put_targets\<close> and \<^verbatim>\<open>delete_rule\<close> are
  given \<^verbatim>\<open>func.name\<close> as it is. For a function named \<^verbatim>\<open>custom\<close>, \<^verbatim>\<open>add\<close> looks the rule up
  as \<^verbatim>\<open>maid-custom\<close> and then creates the rule \<^verbatim>\<open>custom\<close>, lists its targets and adds a
  target to it; \<^verbatim>\<open>remove\<close> looks up \<^verbatim>\<open>maid-custom\<close> and deletes \<^verbatim>\<open>custom\<close>. The rule
  operations do not use one identity.
\<close>

theorem rule_operations_disagree_without_prefix:
  "map op_of (issued
     (add (fixed_provider (Inl (ClientError ''ResourceNotFoundException'' ''no rule'')) (PList []))
        (\<lambda>v. ''{}'') ''uid'' s3_bucket_check_source custom_function ((), []))) =
     [''describe_rule'', ''put_rule'', ''list_targets_by_rule'', ''put_targets'']
   \<and> map rule_named (issued
     (add (fixed_provider (Inl (ClientError ''ResourceNotFoundException'' ''no rule'')) (PList []))
        (\<lambda>v. ''{}'') ''uid'' s3_bucket_check_source custom_function ((), []))) =
     [PStr ''maid-custom'', PStr ''custom'', PStr ''custom'', PStr ''custom'']
   \<and> map op_of (issued
     (CloudWatchEventSource_remove (fixed_provider (Inr (PDict matching_rule)) (PList []))
        s3_bucket_check_source custom_function ((), []))) =
     [''describe_rule'', ''delete_rule'']
   \<and> map rule_named (issued
     (CloudWatchEventSource_remove (fixed_provider (Inr (PDict matching_rule)) (PList []))
        s3_bucket_check_source custom_function ((), []))) =
     [PStr ''maid-custom'', PStr ''custom'']
   \<and> make_notification_id ''maid-'' ''custom'' = ''maid-custom''"
  by (simp add: example_defs add_defs custom_function_def rule_named_def issued_def
        CloudWatchEventSource_remove_def)

section \<open>Properties of the archive\<close>

text \<open>
  C5. Sealed means that \<^verbatim>\<open>_closed\<close> is set, which \<^verbatim>\<open>close\<close> does first of all. On a sealed
  archive \<^verbatim>\<open>add_contents\<close> raises \<^verbatim>\<open>AssertionError\<close> and leaves the archive as it is; on an
  archive that is not sealed \<^verbatim>\<open>get_checksum\<close> raises \<^verbatim>\<open>AssertionError\<close> and \<^verbatim>\<open>size\<close>
  raises \<^verbatim>\<open>ValueError\<close>; so a checksum or a size is only ever returned by a sealed archive.
  After \<^verbatim>\<open>close\<close> the archive is sealed, whatever it was, and a write fails.
  (The two assertions are \<^verbatim>\<open>assert\<close> statements, which run unless Python is started
  with \<^verbatim>\<open>-O\<close>.)
\<close>

theorem archive_lifecycle:
  "(closed a \<longrightarrow> add_contents dst contents a = (Inl (AssertionError ''Archive closed''), a))
   \<and> (\<not> closed a \<longrightarrow>
         get_checksum h a = Inl (AssertionError ''Archive not closed'')
       \<and> archive_size a = Inl (ValueError ''Archive not closed, size not accurate''))
   \<and> ((\<exists>v. get_checksum h a = Inr v) \<longrightarrow> closed a)
   \<and> ((\<exists>n. archive_size a = Inr n) \<longrightarrow> closed a)
   \<and> closed (snd (close h a))
   \<and> fst (add_contents dst contents (snd (close h a))) = Inl (AssertionError ''Archive closed'')"
proof (intro conjI impI)
  assume "closed a"
  then show "add_contents dst contents a = (Inl (AssertionError ''Archive closed''), a)"
    by (simp add: add_contents_def)
next
  assume "\<not> closed a"
  then show "get_checksum h a = Inl (AssertionError ''Archive not closed'')"
    by (simp add: get_checksum_def)
next
  assume "\<not> closed a"
  then show "archive_size a = Inl (ValueError ''Archive not closed, size not accurate'')"
    by (simp add: archive_size_def)
next
  assume "\<exists>v. get_checksum h a = Inr v"
  then show "closed a" by (cases "closed a") (simp_all add: get_checksum_def)
next
  assume "\<exists>n. archive_size a = Inr n"
  then show "closed a" by (cases "closed a") (simp_all add: archive_size_def)
next
  show c: "closed (snd (close h a))"
    by (simp add: close_def Let_def split: option.split prod.split)
  then show "fst (add_contents dst contents (snd (close h a))) = Inl (AssertionError ''Archive closed'')"
    by (simp add: add_contents_def)
qed

text \<open>
  The archive of a policy function before it is built: no checksum, no size. The same
  archive marked closed: no write.
\<close>

theorem archive_lifecycle_witness:
  "get_checksum example_host (maid_archive [''app'', ''janitor''] [''venv''] (Some ''*pyc'')) =
     Inl (AssertionError ''Archive not closed'')
   \<and> archive_size (maid_archive [''app'', ''janitor''] [''venv''] (Some ''*pyc'')) =
     Inl (ValueError ''Archive not closed, size not accurate'')
   \<and> fst (add_contents (zinfo ''late.txt'') ''late''
          ((maid_archive [''app'', ''janitor''] [''venv''] (Some ''*pyc''))\<lparr>closed := True\<rparr>)) =
     Inl (AssertionError ''Archive closed'')"
proof -
  let ?a = "maid_archive [''app'', ''janitor''] [''venv''] (Some ''*pyc'')"
  have o: "\<not> closed ?a" by (simp add: maid_archive_def PythonPackageArchive_def)
  have c: "closed (?a\<lparr>closed := True\<rparr>)" by simp
  note t = archive_lifecycle [of ?a _ _ example_host]
  from t [THEN conjunct2, THEN conjunct1, rule_format, OF o]
  have 1: "get_checksum example_host ?a = Inl (AssertionError ''Archive not closed'')
       \<and> archive_size ?a = Inl (ValueError ''Archive not closed, size not accurate'')" .
  from archive_lifecycle [of "?a\<lparr>closed := True\<rparr>" "zinfo ''late.txt''" "''late''",
      THEN conjunct1, rule_format, OF c]
  have 2: "fst (add_contents (zinfo ''late.txt'') ''late'' (?a\<lparr>closed := True\<rparr>)) =
     Inl (AssertionError ''Archive closed'')" by simp
  from 1 2 show ?thesis by (simp only: simp_thms)
qed

text \<open>
  C6. The archive of the policy \<^verbatim>\<open>ec2-tag-compliance\<close> built on the example host. The two
  synthetic entries, written through \<^verbatim>\<open>zinfo\<close>, carry \<^verbatim>\<open>0o644 << 16\<close>. The walked files
  carry the mode of the host file: \<^verbatim>\<open>janitor/mu.py\<close>, which is \<^verbatim>\<open>0o100600\<close> on the host,
  is stored with \<^verbatim>\<open>0o100600 << 16\<close>, which is not \<^verbatim>\<open>0o644 << 16\<close> and has the
  read bit of other users (\<^verbatim>\<open>0o004 << 16\<close>) clear.
\<close>

theorem walked_file_keeps_host_mode:
  "map (\<lambda>e. (z_filename e, z_external_attr e))
     (the (zip_file (snd (PolicyLambda_get_archive example_host (\<lambda>p. ''{}'') ec2_tag_compliance
        (maid_archive [''app'', ''janitor''] [''venv''] (Some ''*pyc'')))))) =
     [(''janitor/__init__.py'', push_bit 16 33188), (''janitor/mu.py'', push_bit 16 33152),
      (''six.py'', push_bit 16 33188), (''yaml/__init__.py'', push_bit 16 33188),
      (''config.json'', push_bit 16 420), (''maid_policy.py'', push_bit 16 420)]
   \<and> push_bit 16 (33152 :: int) \<noteq> push_bit 16 420
   \<and> push_bit 16 (33152 :: int) AND push_bit 16 4 = 0"
  by code_simp

section \<open>Properties of the function reconciliation\<close>

lemma get_function_run:
  "LambdaManager_get remote name q (w, tr) = (r, s1) \<Longrightarrow>
   snd s1 = tr @ [Call ''lambda'' ''get_function'' (get_function_params name q)]"
  by (auto simp: LambdaManager_get_def resource_exists_apply invoke_apply
        split: sum.splits error.splits if_splits)

lemma upload_func_trace:
  "upload_func remote parse_s3 uri func arch (w1, tr1) = (r, s2) \<Longrightarrow>
   \<exists>u. snd s2 = tr1 @ u \<and> list_all (\<lambda>c. op_of c = ''upload_file'') u"
  by (auto simp: upload_func_def bind_prog_apply invoke_apply ret_def raise_def Let_def
        split: sum.splits prod.splits)

lemma code_reference_trace:
  assumes "code_reference remote parse_s3 s3_uri func arch (w1, tr1) = (r, s2)"
  shows "\<exists>u. snd s2 = tr1 @ u \<and> list_all (\<lambda>c. op_of c = ''upload_file'') u
           \<and> (\<not> str_truthy s3_uri \<longrightarrow> u = [])"
proof (cases "str_truthy s3_uri")
  case True
  obtain r0 s0 where u: "upload_func remote parse_s3 (the s3_uri) func arch (w1, tr1) = (r0, s0)"
    by (metis prod.exhaust)
  from upload_func_trace [OF u] obtain us where
    us: "snd s0 = tr1 @ us" "list_all (\<lambda>c. op_of c = ''upload_file'') us" by blast
  have "snd s2 = snd s0"
    using assms True u by (cases r0) (auto simp: code_reference_def bind_prog_apply ret_def)
  then show ?thesis using us True by simp
next
  case False
  then have "snd s2 = tr1"
    using assms by (auto simp: code_reference_def ret_def raise_def split: sum.splits)
  then show ?thesis using False by simp
qed

lemma delta_function_loop_result:
  assumes "getitem lfunc ''Configuration'' = Inr conf"
      and "delta_function_loop lfunc kvs = Inr d"
  shows "(d = PBool True \<and> list_ex (\<lambda>(k, v). getitem conf k \<noteq> Inr v) kvs)
       \<or> (d = PNone \<and> \<not> list_ex (\<lambda>(k, v). getitem conf k \<noteq> Inr v) kvs)"
  using assms(2)
proof (induction kvs)
  case Nil
  then show ?case by simp
next
  case (Cons kv kvs)
  obtain k v where kv: "kv = (k, v)" by (cases kv)
  show ?case
  proof (cases "getitem conf k")
    case (Inl e)
    then show ?thesis using Cons.prems assms(1) kv by simp
  next
    case (Inr rv)
    show ?thesis
    proof (cases "v = rv")
      case True
      then have "delta_function_loop lfunc kvs = Inr d"
        using Cons.prems assms(1) kv Inr by simp
      from Cons.IH [OF this] show ?thesis using kv Inr True by simp
    next
      case False
      then have "d = PBool True" using Cons.prems assms(1) kv Inr by simp
      then show ?thesis using kv Inr False by auto
    qed
  qed
qed

lemma update_existing_run:
  assumes run: "update_existing remote h func arch lfunc code_ref (w2, tr2) = (Inr result, s')"
  shows "\<exists>conf cs sha.
           getitem lfunc ''Configuration'' = Inr conf
         \<and> get_checksum h arch = Inr cs
         \<and> getitem conf ''CodeSha256'' = Inr sha
         \<and> snd s' = tr2
             @ (if PStr cs \<noteq> sha then [update_code_call func code_ref] else [])
             @ (if list_ex (\<lambda>(k, v). getitem conf k \<noteq> Inr v) (get_config func)
                then [update_config_call func] else [])"
proof -
  from run obtain conf where conf: "getitem lfunc ''Configuration'' = Inr conf"
    by (cases "getitem lfunc ''Configuration''") (simp_all add: update_existing_def raise_def)
  from run conf obtain cs where cs: "get_checksum h arch = Inr cs"
    by (cases "get_checksum h arch") (simp_all add: update_existing_def raise_def)
  from run conf cs obtain sha where sha: "getitem conf ''CodeSha256'' = Inr sha"
    by (cases "getitem conf ''CodeSha256''") (simp_all add: update_existing_def raise_def)
  let ?c = "if PStr cs \<noteq> sha then [update_code_call func code_ref] else []"
  obtain r3 w3 tr3 where
    c: "(if PStr cs \<noteq> sha then invoke remote (update_code_call func code_ref) else ret conf) (w2, tr2)
        = (r3, (w3, tr3))"
    by (metis prod.exhaust)
  then have tr3: "tr3 = tr2 @ ?c"
    by (auto simp: invoke_apply ret_def split: if_splits)
  from run conf cs sha c obtain result1 where r3: "r3 = Inr result1"
    by (cases r3) (simp_all add: update_existing_def bind_prog_apply)
  from run conf cs sha c r3 obtain d where d: "delta_function lfunc func = Inr d"
    by (cases "delta_function lfunc func")
       (simp_all add: update_existing_def bind_prog_apply raise_def)
  from delta_function_loop_result [OF conf d [unfolded delta_function_def]]
  have dd: "truthy d \<longleftrightarrow> list_ex (\<lambda>(k, v). getitem conf k \<noteq> Inr v) (get_config func)"
    by auto
  from run conf cs sha c r3 d
  have "(if truthy d then invoke remote (update_config_call func) else ret result1) (w3, tr3)
      = (Inr result, s')"
    by (simp add: update_existing_def bind_prog_apply)
  then have "snd s' = tr3 @ (if truthy d then [update_config_call func] else [])"
    by (auto simp: invoke_apply ret_def split: if_splits)
  then show ?thesis using conf cs sha tr3 dd by simp
qed



lemma calls_of_singleton: "calls_of opn [c] = (if op_of c = opn then [c] else [])"
  by (simp add: calls_of_def)

lemma calls_of_uploads:
  "list_all (\<lambda>c. op_of c = ''upload_file'') u \<Longrightarrow> opn \<noteq> ''upload_file'' \<Longrightarrow> calls_of opn u = []"
  by (induction u) (auto simp: calls_of_def)

lemma op_of_calls [simp]:
  "op_of (update_code_call func code_ref) = ''update_function_code''"
  "op_of (update_config_call func) = ''update_function_configuration''"
  "op_of (create_call func code_ref) = ''create_function''"
  by (simp_all add: update_code_call_def update_config_call_def create_call_def)

lemma checksum_one_block:
  assumes "rest \<noteq> []" and "length rest \<le> blocksize"
  shows "checksum h rest hasher blocksize = sha256_digest h (sha256_update h hasher rest)"
proof -
  have "checksum h rest hasher blocksize =
      checksum h [] (sha256_update h hasher rest) blocksize"
    using assms by (subst checksum.simps) (simp add: Let_def)
  also have "\<dots> = sha256_digest h (sha256_update h hasher rest)"
    by (subst checksum.simps) (simp add: Let_def)
  finally show ?thesis .
qed

lemma sealed_archive_fields:
  "closed sealed_archive"
  "temp_archive_file sealed_archive = Some (''/tmp/tmpA'', ''zipbytes'')"
  by (simp_all add: sealed_archive_def)

lemma sealed_archive_checksum: "get_checksum example_host sealed_archive = Inr ''xxxxxxxx''"
proof -
  have "checksum example_host ''zipbytes'' (sha256_new example_host) 65536 =
      sha256_digest example_host (sha256_update example_host (sha256_new example_host) ''zipbytes'')"
    by (rule checksum_one_block) simp_all
  also have "\<dots> = ''xxxxxxxx''"
    by (simp add: example_host_def numeral_eq_Suc)
  finally show ?thesis
    by (simp add: get_checksum_def sealed_archive_fields example_host_def)
qed

lemma sealed_archive_bytes:
  "get_bytes sealed_archive = Inr ''zipbytes''" "archive_path sealed_archive = Inr ''/tmp/tmpA''"
  by (simp_all add: get_bytes_def archive_path_def sealed_archive_fields)

lemma s3_function:
  "PolicyLambda s3_bucket_check =
     \<lparr>fn_name = ''maid-s3-bucket-check'', fn_runtime = ''python2.7'',
      fn_description = ''cloud-maid lambda policy'', fn_handler = ''maid_policy.run'',
      fn_memory_size = 512, fn_timeout = 60, fn_role = [], fn_alias = None\<rparr>"
  by (simp add: PolicyLambda_def s3_bucket_check_def)

lemmas manager_defs =
  create_or_update_def update_existing_def code_reference_def upload_func_def
  delta_function_def get_config_def LambdaManager_get_def get_function_params_def
  update_code_call_def update_config_call_def
  function_provider_def remote_record_def example_parse_s3_def
  sealed_archive_checksum sealed_archive_bytes s3_function str_truthy_def
  bind_prog_apply resource_exists_apply invoke_apply ret_def raise_def Let_def

lemma timeout_run:
  "create_or_update (function_provider (remote_record ''xxxxxxxx'' 30) (Inr (PDict []))) example_host
       example_parse_s3 (PolicyLambda s3_bucket_check) (Inr sealed_archive) (Some ''arn:role'')
       None None ((), []) =
     (Inr (PDict []),
      ((), [Call ''lambda'' ''get_function'' [(''FunctionName'', PStr ''maid-s3-bucket-check'')],
            update_config_call (PolicyLambda s3_bucket_check)]))"
  by (simp add: manager_defs)

lemma timeout_lookup:
  "LambdaManager_get (function_provider (remote_record ''xxxxxxxx'' 30) (Inr (PDict [])))
       (fn_name (PolicyLambda s3_bucket_check)) None ((), []) =
     (Inr (remote_record ''xxxxxxxx'' 30),
      ((), [Call ''lambda'' ''get_function'' [(''FunctionName'', PStr ''maid-s3-bucket-check'')]]))"
  by (simp add: manager_defs)

lemma timeout_conf:
  "getitem (remote_record ''xxxxxxxx'' 30) ''Configuration'' =
     Inr (PDict [(''FunctionName'', PStr ''maid-s3-bucket-check''), (''MemorySize'', PInt 512),
                 (''Role'', PStr []), (''Description'', PStr ''cloud-maid lambda policy''),
                 (''Runtime'', PStr ''python2.7''), (''Handler'', PStr ''maid_policy.run''),
                 (''Timeout'', PInt 30), (''CodeSha256'', PStr ''xxxxxxxx''),
                 (''Version'', PStr ''3'')])"
  by (simp add: remote_record_def)

lemma same_when_equal: "(xs \<noteq> [] \<longleftrightarrow> a \<noteq> b) \<Longrightarrow> a = b \<Longrightarrow> xs = []"
  by simp

lemma the_one_when_some: "(xs \<noteq> [] \<longleftrightarrow> Q) \<Longrightarrow> Q \<Longrightarrow> xs = [] \<or> xs = [y] \<Longrightarrow> xs = [y]"
  by auto

text \<open>
  C1, as stated, fails in two ways. With an upload target and a remote function that
  matches in code and configuration, neither update fires and yet the archive is
  uploaded: a mutating call. And when the code-update call fails, the pass stops there:
  the timeout differs (30 remotely, 60 desired) and no configuration update is issued.
\<close>

theorem unchanged_function_still_uploads:
  "create_or_update (function_provider (remote_record ''xxxxxxxx'' 60) (Inr (PDict []))) example_host
       example_parse_s3 (PolicyLambda s3_bucket_check) (Inr sealed_archive) (Some ''arn:role'')
       (Some ''s3://bucket/prefix'') None ((), []) =
     (getitem (remote_record ''xxxxxxxx'' 60) ''Configuration'',
      ((), [Call ''lambda'' ''get_function'' [(''FunctionName'', PStr ''maid-s3-bucket-check'')],
            Call ''s3'' ''upload_file''
              [(''filename'', PStr ''/tmp/tmpA''), (''bucket'', PStr ''bucket''),
               (''key'', PStr ''prefix/maid-s3-bucket-check''),
               (''extra_args'', PDict [(''ServerSideEncryption'', PStr ''AES256'')])]]))
   \<and> create_or_update (function_provider (remote_record ''old'' 30)
          (Inl (ClientError ''TooManyRequestsException'' ''slow down''))) example_host
       example_parse_s3 (PolicyLambda s3_bucket_check) (Inr sealed_archive) (Some ''arn:role'')
       None None ((), []) =
     (Inl (ClientError ''TooManyRequestsException'' ''slow down''),
      ((), [Call ''lambda'' ''get_function'' [(''FunctionName'', PStr ''maid-s3-bucket-check'')],
            Call ''lambda'' ''update_function_code''
              [(''FunctionName'', PStr ''maid-s3-bucket-check''), (''Publish'', PBool True),
               (''ZipFile'', PStr ''zipbytes'')]]))
   \<and> fn_timeout (PolicyLambda s3_bucket_check) = 60"
  by (simp add: manager_defs)

text \<open>
  C1, amended. Take a pass of \<^verbatim>\<open>_create_or_update\<close> that returns (no step raises), whose
  lookup found the function (\<open>lfunc\<close> truthy, with configuration \<open>conf\<close>); \<open>new\<close> are the
  calls the pass issues. A code update is among them exactly when the archive's
  checksum differs from \<^verbatim>\<open>CodeSha256\<close>; a configuration update, which is the call with the
  derived configuration, exactly when one of the seven fields of \<^verbatim>\<open>get_config\<close> differs
  from the remote field. When neither is issued the pass has called nothing but the
  lookup and the upload, and nothing but the lookup when no upload target is given.
\<close>

theorem two_axis_diff:
  assumes run: "create_or_update remote h parse_s3 func get_archive role s3_uri qualifier (w, tr)
                  = (Inr result, s')"
      and lookup: "LambdaManager_get remote (fn_name func) qualifier (w, tr) = (Inr lfunc, s1)"
      and found: "truthy lfunc"
      and arch: "get_archive = Inr arch"
      and conf: "getitem lfunc ''Configuration'' = Inr conf"
      and new: "new = drop (length tr) (snd s')"
  shows "(calls_of ''update_function_code'' new \<noteq> [] \<longleftrightarrow>
            map_sum id PStr (get_checksum h arch) \<noteq> getitem conf ''CodeSha256'')
       \<and> (calls_of ''update_function_configuration'' new \<noteq> [] \<longleftrightarrow>
            list_ex (\<lambda>(k, v). getitem conf k \<noteq> Inr v) (get_config func))
       \<and> (calls_of ''update_function_configuration'' new = [] \<or>
            calls_of ''update_function_configuration'' new = [update_config_call func])
       \<and> (calls_of ''update_function_code'' new = [] \<and>
            calls_of ''update_function_configuration'' new = [] \<longrightarrow>
            list_all (\<lambda>c. op_of c = ''get_function'' \<or> op_of c = ''upload_file'') new
          \<and> (\<not> str_truthy s3_uri \<longrightarrow>
               new = [Call ''lambda'' ''get_function'' (get_function_params (fn_name func) qualifier)]))"
proof -
  let ?g = "Call ''lambda'' ''get_function'' (get_function_params (fn_name func) qualifier)"
  have role_ok: "str_truthy (if fn_role func \<noteq> [] then Some (fn_role func) else role)"
    using run by (cases "str_truthy (if fn_role func \<noteq> [] then Some (fn_role func) else role)")
      (simp_all add: create_or_update_def raise_def Let_def)
  obtain w1 tr1 where s1: "s1 = (w1, tr1)" by (cases s1)
  from get_function_run [OF lookup] s1 have tr1: "tr1 = tr @ [?g]" by simp
  obtain r2 w2 tr2 where cr: "code_reference remote parse_s3 s3_uri func arch (w1, tr1) = (r2, (w2, tr2))"
    by (metis prod.exhaust)
  from code_reference_trace [OF cr] obtain u where
    u: "tr2 = tr1 @ u" "list_all (\<lambda>c. op_of c = ''upload_file'') u" "\<not> str_truthy s3_uri \<longrightarrow> u = []"
    by auto
  from run role_ok arch lookup s1 cr obtain code_ref where r2: "r2 = Inr code_ref"
    by (cases r2) (simp_all add: create_or_update_def Let_def bind_prog_apply)
  from run role_ok arch lookup s1 cr r2 found
  have ue: "update_existing remote h func arch lfunc code_ref (w2, tr2) = (Inr result, s')"
    by (simp add: create_or_update_def Let_def bind_prog_apply)
  from update_existing_run [OF ue] conf obtain cs sha where
    cs: "get_checksum h arch = Inr cs" and sha: "getitem conf ''CodeSha256'' = Inr sha" and
    t: "snd s' = tr2
             @ (if PStr cs \<noteq> sha then [update_code_call func code_ref] else [])
             @ (if list_ex (\<lambda>(k, v). getitem conf k \<noteq> Inr v) (get_config func)
                then [update_config_call func] else [])"
    by auto
  let ?C = "if PStr cs \<noteq> sha then [update_code_call func code_ref] else []"
  let ?G = "if list_ex (\<lambda>(k, v). getitem conf k \<noteq> Inr v) (get_config func)
                then [update_config_call func] else []"
  have n: "new = [?g] @ u @ ?C @ ?G" using new t u(1) tr1 by simp
  have gc: "calls_of ''update_function_code'' [?g] = []"
    and gg: "calls_of ''update_function_configuration'' [?g] = []"
    by (simp_all add: calls_of_singleton)
  have uc: "calls_of ''update_function_code'' u = []"
    and ug: "calls_of ''update_function_configuration'' u = []"
    using u(2) by (simp_all add: calls_of_uploads)
  have cc: "calls_of ''update_function_code'' new = ?C"
    unfolding n calls_of_append gc uc by (simp add: calls_of_def)
  have cg: "calls_of ''update_function_configuration'' new = ?G"
    unfolding n calls_of_append gg ug by (simp add: calls_of_def)
  have 1: "calls_of ''update_function_code'' new \<noteq> [] \<longleftrightarrow>
            map_sum id PStr (get_checksum h arch) \<noteq> getitem conf ''CodeSha256''"
    using cc cs sha by simp
  have 2: "calls_of ''update_function_configuration'' new \<noteq> [] \<longleftrightarrow>
            list_ex (\<lambda>(k, v). getitem conf k \<noteq> Inr v) (get_config func)"
    using cg by simp
  have 3: "calls_of ''update_function_configuration'' new = [] \<or>
            calls_of ''update_function_configuration'' new = [update_config_call func]"
    using cg by simp
  have 4: "calls_of ''update_function_code'' new = [] \<and>
            calls_of ''update_function_configuration'' new = [] \<longrightarrow>
            list_all (\<lambda>c. op_of c = ''get_function'' \<or> op_of c = ''upload_file'') new
          \<and> (\<not> str_truthy s3_uri \<longrightarrow> new = [?g])"
  proof
    assume "calls_of ''update_function_code'' new = [] \<and>
            calls_of ''update_function_configuration'' new = []"
    then have "?C = []" "?G = []" using cc cg by simp_all
    then have "new = [?g] @ u" using n by simp
    then show "list_all (\<lambda>c. op_of c = ''get_function'' \<or> op_of c = ''upload_file'') new
          \<and> (\<not> str_truthy s3_uri \<longrightarrow> new = [?g])"
      using u(2,3) by (simp add: list_all_iff)
  qed
  from 1 2 3 4 show ?thesis by (simp only: simp_thms)
qed

text \<open>
  Only the timeout differs: the configuration update is issued and the code update is not.
\<close>

theorem two_axis_diff_witness:
  "calls_of ''update_function_configuration'' (snd (snd
     (create_or_update (function_provider (remote_record ''xxxxxxxx'' 30) (Inr (PDict []))) example_host
        example_parse_s3 (PolicyLambda s3_bucket_check) (Inr sealed_archive) (Some ''arn:role'')
        None None ((), [])))) = [update_config_call (PolicyLambda s3_bucket_check)]
   \<and> calls_of ''update_function_code'' (snd (snd
     (create_or_update (function_provider (remote_record ''xxxxxxxx'' 30) (Inr (PDict []))) example_host
        example_parse_s3 (PolicyLambda s3_bucket_check) (Inr sealed_archive) (Some ''arn:role'')
        None None ((), [])))) = []"
proof -
  let ?g = "Call ''lambda'' ''get_function'' [(''FunctionName'', PStr ''maid-s3-bucket-check'')]"
  let ?u = "update_config_call (PolicyLambda s3_bucket_check)"
  let ?conf = "PDict [(''FunctionName'', PStr ''maid-s3-bucket-check''),
                 (''MemorySize'', PInt 512),
                 (''Role'', PStr []), (''Description'', PStr ''cloud-maid lambda policy''),
                 (''Runtime'', PStr ''python2.7''), (''Handler'', PStr ''maid_policy.run''),
                 (''Timeout'', PInt 30), (''CodeSha256'', PStr ''xxxxxxxx''),
                 (''Version'', PStr ''3'')]"
  have f: "truthy (remote_record ''xxxxxxxx'' 30)" by (simp add: remote_record_def)
  have d: "list_ex (\<lambda>(k, v). getitem ?conf k \<noteq> Inr v) (get_config (PolicyLambda s3_bucket_check))"
    by (simp add: get_config_def s3_function)
  have c: "map_sum id PStr (get_checksum example_host sealed_archive) = getitem ?conf ''CodeSha256''"
    by (simp add: sealed_archive_checksum)
  have n: "[?g, ?u] = drop (length ([] :: call list)) (snd ((), [?g, ?u]))" by simp
  note t = two_axis_diff [OF timeout_run timeout_lookup f refl timeout_conf n]
  have 1: "calls_of ''update_function_code'' [?g, ?u] = []"
    by (rule same_when_equal [OF t [THEN conjunct1] c])
  have 2: "calls_of ''update_function_configuration'' [?g, ?u] = [?u]"
    by (rule the_one_when_some [OF t [THEN conjunct2, THEN conjunct1] d
          t [THEN conjunct2, THEN conjunct2, THEN conjunct1]])
  show ?thesis
    by (simp only: timeout_run snd_conv 1 2 simp_thms)
qed

end
